theory Spec2Isabelle
  imports Complex_Main "HOL-Library.Word"
begin

section \<open>The btcd exporter: a shallow embedding\<close>

text \<open>
  The repository holds two versions of one Go program, a Prometheus exporter for a btcd
  node. \<^verbatim>\<open>src/btcd_exporter.go\<close> is the extended variant: it also reports the timestamp of
  the best block and reads a TLS certificate at startup. \<^verbatim>\<open>src/unnamed/part_000\<close> is the
  basic variant. Definitions of the extended variant carry the names of the source; those of
  the basic variant carry the same names with the suffix \<open>0\<close>.
\<close>

subsection \<open>Go values\<close>

text \<open>
  The release workflow (\<^verbatim>\<open>goarch: [amd64, arm64]\<close>) builds for 64-bit targets only, so
  Go's \<^verbatim>\<open>int\<close> is a 64-bit two's complement integer: a \<open>64 word\<close> read with \<open>sint\<close>.

  A \<^verbatim>\<open>float64\<close> is an IEEE 754 binary64 value, kept as its three fields: the sign bit, the
  11-bit biased exponent and the 52-bit fraction.
\<close>

datatype float64 = Float64 (sign: bool) (expo: nat) (frac: nat)

text \<open>The rational number a finite \<^verbatim>\<open>float64\<close> denotes; infinities and NaN denote none.\<close>

definition float64_val :: "float64 \<Rightarrow> rat option" where
  "float64_val f =
     (if expo f = 2047 then None
      else
        let m = (if expo f = 0 then frac f else 2 ^ 52 + frac f);
            e = (if expo f = 0 then 1 else expo f);
            r = (if 1075 \<le> e then of_nat (m * 2 ^ (e - 1075))
                 else of_nat m / of_nat (2 ^ (1075 - e)))
        in Some (if sign f then - r else r))"

fun bit_length :: "nat \<Rightarrow> nat" where
  "bit_length n = (if n = 0 then 0 else Suc (bit_length (n div 2)))"

declare bit_length.simps [simp del]

text \<open>Dropping the low \<open>sh\<close> bits of \<open>m\<close>, rounding to nearest, ties to even.\<close>

definition round_half_even :: "nat \<Rightarrow> nat \<Rightarrow> nat" where
  "round_half_even m sh =
     (let q = m div 2 ^ sh; r = m mod 2 ^ sh; h = 2 ^ (sh - 1)
      in if h < r \<or> (r = h \<and> odd q) then q + 1 else q)"

text \<open>
  The Go conversion \<^verbatim>\<open>float64(x)\<close> of an \<^verbatim>\<open>int\<close>: the nearest binary64 value, ties to
  even. The significand keeps 53 bits of the magnitude.
\<close>

definition float64_of_int :: "64 word \<Rightarrow> float64" where
  "float64_of_int x =
     (let i = sint x; m = nat \<bar>i\<bar>
      in if m = 0 then Float64 False 0 0
         else
           let e = bit_length m - 1;
               q = (if e \<le> 52 then m * 2 ^ (52 - e) else round_half_even m (e - 52))
           in if q = 2 ^ 53 then Float64 (i < 0) (e + 1 + 1023) 0
              else Float64 (i < 0) (e + 1023) (q - 2 ^ 52))"

text \<open>The untyped constants \<^verbatim>\<open>0\<close> and \<^verbatim>\<open>1\<close> passed where a \<^verbatim>\<open>float64\<close> is expected.\<close>

definition float64_zero :: float64 where
  "float64_zero = Float64 False 0 0"

definition float64_one :: float64 where
  "float64_one = Float64 False 1023 0"

text \<open>A Go \<^verbatim>\<open>error\<close> value, by the text its \<^verbatim>\<open>Error()\<close> method returns.\<close>

datatype error = Error (Error_msg: string)

datatype panic = NilDereference | PanicError error

subsection \<open>The Prometheus client library: descriptors and constant metrics\<close>

text \<open>
  Of the library \<^verbatim>\<open>prometheus/client_golang\<close>, which is not part of the repository, the
  model keeps what the exporter's calls depend on: \<^verbatim>\<open>BuildFQName\<close> joins the non-empty
  parts of a name with underscores; \<^verbatim>\<open>NewDesc\<close> records an error in the descriptor when the
  name is not a metric name (a letter, underscore or colon, then letters, digits, underscores
  and colons); \<^verbatim>\<open>NewConstMetric\<close> fails on such a descriptor and when the number of label
  values differs from the number of variable labels, and \<^verbatim>\<open>MustNewConstMetric\<close> panics
  where \<^verbatim>\<open>NewConstMetric\<close> fails.
\<close>

datatype ValueType = CounterValue | GaugeValue | UntypedValue

record Desc =
  fqName :: string
  helpText :: string
  variableLabels :: "string list"
  constLabels :: "(string \<times> string) list"
  desc_err :: "error option"

record Metric =
  metric_desc :: Desc
  valType :: ValueType
  metric_val :: float64
  labelValues :: "string list"

definition BuildFQName :: "string \<Rightarrow> string \<Rightarrow> string \<Rightarrow> string" where
  "BuildFQName ns subsystem name =
     (if name = [] then []
      else if ns \<noteq> [] \<and> subsystem \<noteq> [] then ns @ ''_'' @ subsystem @ ''_'' @ name
      else if ns \<noteq> [] then ns @ ''_'' @ name
      else if subsystem \<noteq> [] then subsystem @ ''_'' @ name
      else name)"

definition is_name_start :: "char \<Rightarrow> bool" where
  "is_name_start c =
     (let n = of_char c :: nat
      in (65 \<le> n \<and> n \<le> 90) \<or> (97 \<le> n \<and> n \<le> 122) \<or> n = 95 \<or> n = 58)"

definition is_name_char :: "char \<Rightarrow> bool" where
  "is_name_char c = (let n = of_char c :: nat in is_name_start c \<or> (48 \<le> n \<and> n \<le> 57))"

definition IsValidMetricName :: "string \<Rightarrow> bool" where
  "IsValidMetricName n =
     (case n of [] \<Rightarrow> False | c # cs \<Rightarrow> is_name_start c \<and> list_all is_name_char cs)"

definition NewDesc ::
  "string \<Rightarrow> string \<Rightarrow> string list \<Rightarrow> (string \<times> string) list \<Rightarrow> Desc" where
  "NewDesc name hlp vls cls =
     \<lparr>fqName = name, helpText = hlp, variableLabels = vls, constLabels = cls,
      desc_err = (if IsValidMetricName name then None
                  else Some (Error (name @ '' is not a valid metric name'')))\<rparr>"

definition NewConstMetric ::
  "Desc \<Rightarrow> ValueType \<Rightarrow> float64 \<Rightarrow> string list \<Rightarrow> error + Metric" where
  "NewConstMetric d vt v lvs =
     (case desc_err d of
        Some e \<Rightarrow> Inl e
      | None \<Rightarrow>
          if length lvs \<noteq> length (variableLabels d)
          then Inl (Error ''inconsistent label cardinality'')
          else Inr \<lparr>metric_desc = d, valType = vt, metric_val = v, labelValues = lvs\<rparr>)"

definition MustNewConstMetric ::
  "Desc \<Rightarrow> ValueType \<Rightarrow> float64 \<Rightarrow> string list \<Rightarrow> panic + Metric" where
  "MustNewConstMetric d vt v lvs =
     (case NewConstMetric d vt v lvs of Inl e \<Rightarrow> Inl (PanicError e) | Inr m \<Rightarrow> Inr m)"

subsection \<open>The descriptor table\<close>

definition namespace :: string where
  "namespace = ''btcd''"

definition up :: Desc where
  "up = NewDesc (BuildFQName namespace [] ''up'')
          ''Was the last btcd query successful.'' [] []"

definition blocks :: Desc where
  "blocks = NewDesc (BuildFQName namespace [] ''blocks_total'')
          ''How many blocks are reported by btcd getinfo.'' [] []"

definition latestBlock :: Desc where
  "latestBlock = NewDesc (BuildFQName namespace [] ''latest_block_timestamp'')
          ''Timestamp of the latest block in the chain. According to block header information.''
          [] []"

definition peers :: Desc where
  "peers = NewDesc (BuildFQName namespace [] ''peers'')
          ''How many peers are reported by btcd getinfo.'' [] []"

definition difficulty :: Desc where
  "difficulty = NewDesc (BuildFQName namespace [] ''difficulty'')
          ''What is difficulty reported by btcd getinfo.'' [] []"

definition bytesSent :: Desc where
  "bytesSent = NewDesc (BuildFQName namespace [] ''sent_bytes'')
          ''How many bytes have been sent reported by btcd getnettotals.'' [] []"

definition bytesReceived :: Desc where
  "bytesReceived = NewDesc (BuildFQName namespace [] ''received_bytes'')
          ''How many bytes have been received reported by btcd getnettotals.'' [] []"

subsection \<open>The upstream node and its RPC client\<close>

text \<open>
  The results of the four queries, with the fields the exporter reads and their Go types:
  \<^verbatim>\<open>Blocks\<close> and \<^verbatim>\<open>Connections\<close> are \<^verbatim>\<open>int32\<close>, \<^verbatim>\<open>Difficulty\<close> is \<^verbatim>\<open>float64\<close>, the byte
  totals are \<^verbatim>\<open>uint64\<close>, a block hash is a byte array, and the header's \<^verbatim>\<open>Timestamp\<close> is a
  \<^verbatim>\<open>time.Time\<close>, of which only \<^verbatim>\<open>Unix()\<close> (an \<^verbatim>\<open>int64\<close>) is read.
\<close>

record InfoWalletResult =
  Blocks :: "32 word"
  Connections :: "32 word"
  Difficulty :: float64

record GetNetTotalsResult =
  TotalBytesRecv :: "64 word"
  TotalBytesSent :: "64 word"

type_synonym Hash = "8 word list"

datatype Time = Time (Unix: "64 word")

record BlockHeader =
  Timestamp :: Time

text \<open>
  The client is a session with a remote node, whose state \<open>'w\<close> is not the exporter's: each
  query takes the node's state and returns a result or an error, and the node's next state.
\<close>

record 'w Client =
  GetInfo :: "'w \<Rightarrow> (error + InfoWalletResult) \<times> 'w"
  GetNetTotals :: "'w \<Rightarrow> (error + GetNetTotalsResult) \<times> 'w"
  GetBestBlockHash :: "'w \<Rightarrow> (error + Hash) \<times> 'w"
  GetBlockHeader :: "Hash \<Rightarrow> 'w \<Rightarrow> (error + BlockHeader) \<times> 'w"

text \<open>What one scrape can observe from outside: the queries issued, each with its reply.\<close>

datatype rpc_call =
  GetInfo_call | GetNetTotals_call | GetBestBlockHash_call | GetBlockHeader_call Hash

datatype rpc_reply =
  Info_reply InfoWalletResult
| NetTotals_reply GetNetTotalsResult
| Hash_reply Hash
| Header_reply BlockHeader
| Error_reply error

text \<open>
  The state a scrape runs in: the node, the queries issued so far, the channel the samples
  are sent on, and the lines written to the log (the message of each line, without the time
  the logger puts before it).
\<close>

record 'w state =
  node :: 'w
  rpc_trace :: "(rpc_call \<times> rpc_reply) list"
  ch :: "Metric list"
  logged :: "string list"

definition reply_of :: "('a \<Rightarrow> rpc_reply) \<Rightarrow> error + 'a \<Rightarrow> rpc_reply" where
  "reply_of k r = (case r of Inl e \<Rightarrow> Error_reply e | Inr a \<Rightarrow> k a)"

text \<open>Issuing a query: the node answers and moves on, and the trace records the exchange.\<close>

definition query ::
  "rpc_call \<Rightarrow> ('a \<Rightarrow> rpc_reply) \<Rightarrow> ('w \<Rightarrow> (error + 'a) \<times> 'w) \<Rightarrow> 'w state
     \<Rightarrow> (error + 'a) \<times> 'w state" where
  "query c k f s =
     (case f (node s) of
        (r, w) \<Rightarrow> (r, s\<lparr>node := w, rpc_trace := rpc_trace s @ [(c, reply_of k r)]\<rparr>))"

subsection \<open>The exporter\<close>

record BtcdStatistics =
  stat_blocks :: "64 word"
  stat_peers :: "64 word"
  stat_difficulty :: float64
  stat_bytesSent :: "64 word"
  stat_bytesReceived :: "64 word"
  stat_latestBlockTs :: "64 word"

definition newBtcdStatistics ::
  "64 word \<Rightarrow> 64 word \<Rightarrow> float64 \<Rightarrow> 64 word \<Rightarrow> 64 word \<Rightarrow> 64 word \<Rightarrow> BtcdStatistics" where
  "newBtcdStatistics b p d sent recv ts =
     \<lparr>stat_blocks = b, stat_peers = p, stat_difficulty = d, stat_bytesSent = sent,
      stat_bytesReceived = recv, stat_latestBlockTs = ts\<rparr>"

record 'w Exporter =
  client :: "'w Client"

definition NewExporter :: "'w Client \<Rightarrow> 'w Exporter" where
  "NewExporter c = \<lparr>client = c\<rparr>"

text \<open>
  \<^verbatim>\<open>GetAllStatistics\<close> returns a pointer and an error, either of which can be nil: an
  option each. The four queries run one after the other, and the first error returns at once.
  The conversions to \<^verbatim>\<open>int\<close> are sign extension from \<^verbatim>\<open>int32\<close> and the identity on the
  64 bits of a \<^verbatim>\<open>uint64\<close> or \<^verbatim>\<open>int64\<close>.
\<close>

definition GetAllStatistics ::
  "'w Exporter \<Rightarrow> 'w state \<Rightarrow> (BtcdStatistics option \<times> error option) \<times> 'w state" where
  "GetAllStatistics e s =
     (case query GetInfo_call Info_reply (GetInfo (client e)) s of
        (Inl err, s1) \<Rightarrow> ((None, Some err), s1)
      | (Inr info, s1) \<Rightarrow>
     (case query GetNetTotals_call NetTotals_reply (GetNetTotals (client e)) s1 of
        (Inl err, s2) \<Rightarrow> ((None, Some err), s2)
      | (Inr netTotals, s2) \<Rightarrow>
     (case query GetBestBlockHash_call Hash_reply (GetBestBlockHash (client e)) s2 of
        (Inl err, s3) \<Rightarrow> ((None, Some err), s3)
      | (Inr bestBlockHash, s3) \<Rightarrow>
     (case query (GetBlockHeader_call bestBlockHash) Header_reply
             (GetBlockHeader (client e) bestBlockHash) s3 of
        (Inl err, s4) \<Rightarrow> ((None, Some err), s4)
      | (Inr blockHeader, s4) \<Rightarrow>
          ((Some (newBtcdStatistics
                   (scast (Blocks info))
                   (scast (Connections info))
                   (Difficulty info)
                   (ucast (TotalBytesSent netTotals))
                   (ucast (TotalBytesRecv netTotals))
                   (ucast (Unix (Timestamp blockHeader)))), None), s4)))))"

text \<open>The statements of \<^verbatim>\<open>Collect\<close>: a send on the channel, and a line to the log.\<close>

definition send :: "Metric \<Rightarrow> 'w state \<Rightarrow> 'w state" where
  "send m s = s\<lparr>ch := ch s @ [m]\<rparr>"

definition Println :: "string \<Rightarrow> 'w state \<Rightarrow> 'w state" where
  "Println l s = s\<lparr>logged := logged s @ [l]\<rparr>"

text \<open>
  One statement \<^verbatim>\<open>ch <- prometheus.MustNewConstMetric(d, vt, v)\<close>: a panic in the
  constructor leaves the channel as it was and ends the call.
\<close>

definition emit :: "Desc \<Rightarrow> ValueType \<Rightarrow> float64 \<Rightarrow> 'w state \<Rightarrow> panic option \<times> 'w state" where
  "emit d vt v s =
     (case MustNewConstMetric d vt v [] of
        Inl p \<Rightarrow> (Some p, s)
      | Inr m \<Rightarrow> (None, send m s))"

definition then_do ::
  "('s \<Rightarrow> panic option \<times> 's) \<Rightarrow> ('s \<Rightarrow> panic option \<times> 's) \<Rightarrow> 's \<Rightarrow> panic option \<times> 's" where
  "then_do f g s = (case f s of (Some p, s') \<Rightarrow> (Some p, s') | (None, s') \<Rightarrow> g s')"

text \<open>
  \<^verbatim>\<open>Collect\<close> has no result; the model returns the panic that ended it, if any, and the
  state it leaves. Reading a field of \<^verbatim>\<open>statistics\<close> dereferences the pointer. The method
  is named \<open>Collect_metrics\<close> here, \<open>Collect\<close> being the set comprehension of HOL.
\<close>

definition Collect_metrics :: "'w Exporter \<Rightarrow> 'w state \<Rightarrow> panic option \<times> 'w state" where
  "Collect_metrics e s =
     (case GetAllStatistics e s of
        ((statistics, Some err), s1) \<Rightarrow>
          then_do (emit up GaugeValue float64_zero)
            (\<lambda>s2. (None, Println (Error_msg err) s2)) s1
      | ((statistics, None), s1) \<Rightarrow>
          then_do (emit up GaugeValue float64_one)
            (\<lambda>s2. case statistics of
                None \<Rightarrow> (Some NilDereference, s2)
              | Some st \<Rightarrow>
                  then_do (emit blocks CounterValue (float64_of_int (stat_blocks st)))
                 (then_do (emit peers GaugeValue (float64_of_int (stat_peers st)))
                 (then_do (emit difficulty GaugeValue (stat_difficulty st))
                 (then_do (emit bytesSent CounterValue (float64_of_int (stat_bytesSent st)))
                 (then_do (emit bytesReceived GaugeValue (float64_of_int (stat_bytesReceived st)))
                          (emit latestBlock GaugeValue
                             (float64_of_int (stat_latestBlockTs st))))))) s2) s1)"

text \<open>\<^verbatim>\<open>Describe\<close> sends the descriptors on its channel, one after the other.\<close>

definition Describe :: "'w Exporter \<Rightarrow> Desc list \<Rightarrow> Desc list" where
  "Describe e dch =
     dch @ [up] @ [blocks] @ [peers] @ [difficulty] @ [bytesSent] @ [bytesReceived]
         @ [latestBlock]"

subsection \<open>The basic variant\<close>

record BtcdStatistics0 =
  stat0_blocks :: "64 word"
  stat0_peers :: "64 word"
  stat0_difficulty :: float64
  stat0_bytesSent :: "64 word"
  stat0_bytesReceived :: "64 word"

definition newBtcdStatistics0 ::
  "64 word \<Rightarrow> 64 word \<Rightarrow> float64 \<Rightarrow> 64 word \<Rightarrow> 64 word \<Rightarrow> BtcdStatistics0" where
  "newBtcdStatistics0 b p d sent recv =
     \<lparr>stat0_blocks = b, stat0_peers = p, stat0_difficulty = d, stat0_bytesSent = sent,
      stat0_bytesReceived = recv\<rparr>"

definition GetAllStatistics0 ::
  "'w Exporter \<Rightarrow> 'w state \<Rightarrow> (BtcdStatistics0 option \<times> error option) \<times> 'w state" where
  "GetAllStatistics0 e s =
     (case query GetInfo_call Info_reply (GetInfo (client e)) s of
        (Inl err, s1) \<Rightarrow> ((None, Some err), s1)
      | (Inr info, s1) \<Rightarrow>
     (case query GetNetTotals_call NetTotals_reply (GetNetTotals (client e)) s1 of
        (Inl err, s2) \<Rightarrow> ((None, Some err), s2)
      | (Inr netTotals, s2) \<Rightarrow>
          ((Some (newBtcdStatistics0
                   (scast (Blocks info))
                   (scast (Connections info))
                   (Difficulty info)
                   (ucast (TotalBytesSent netTotals))
                   (ucast (TotalBytesRecv netTotals))), None), s2)))"

definition Collect_metrics0 :: "'w Exporter \<Rightarrow> 'w state \<Rightarrow> panic option \<times> 'w state" where
  "Collect_metrics0 e s =
     (case GetAllStatistics0 e s of
        ((statistics, Some err), s1) \<Rightarrow>
          then_do (emit up GaugeValue float64_zero)
            (\<lambda>s2. (None, Println (Error_msg err) s2)) s1
      | ((statistics, None), s1) \<Rightarrow>
          then_do (emit up GaugeValue float64_one)
            (\<lambda>s2. case statistics of
                None \<Rightarrow> (Some NilDereference, s2)
              | Some st \<Rightarrow>
                  then_do (emit blocks CounterValue (float64_of_int (stat0_blocks st)))
                 (then_do (emit peers GaugeValue (float64_of_int (stat0_peers st)))
                 (then_do (emit difficulty GaugeValue (stat0_difficulty st))
                 (then_do (emit bytesSent CounterValue (float64_of_int (stat0_bytesSent st)))
                          (emit bytesReceived GaugeValue
                             (float64_of_int (stat0_bytesReceived st)))))) s2) s1)"

definition Describe0 :: "'w Exporter \<Rightarrow> Desc list \<Rightarrow> Desc list" where
  "Describe0 e dch =
     dch @ [up] @ [blocks] @ [peers] @ [difficulty] @ [bytesSent] @ [bytesReceived]"

subsection \<open>Startup\<close>

text \<open>
  What \<^verbatim>\<open>main\<close> meets outside the program: the environment variables, the per-OS data
  directory of \<^verbatim>\<open>btcutil.AppDataDir\<close>, \<^verbatim>\<open>filepath.Join\<close>, the file system as
  \<^verbatim>\<open>ioutil.ReadFile\<close> sees it, the outcome of \<^verbatim>\<open>rpcclient.New\<close>, and that of
  \<^verbatim>\<open>http.ListenAndServe\<close>, which returns an error or serves without returning (\<open>None\<close>).
\<close>

record ConnConfig =
  Host :: string
  Endpoint :: string
  User :: string
  Pass :: string
  Certificates :: "8 word list"

record 'w OS =
  environ :: "string \<Rightarrow> string option"
  AppDataDir :: "string \<Rightarrow> bool \<Rightarrow> string"
  Join :: "string \<Rightarrow> string \<Rightarrow> string"
  ReadFile :: "string \<Rightarrow> error + 8 word list"
  New :: "ConnConfig \<Rightarrow> error + 'w Client"
  ListenAndServe :: "string \<Rightarrow> error option"

text \<open>\<^verbatim>\<open>os.Getenv\<close> returns the empty string for a variable that is not set.\<close>

definition Getenv :: "'w OS \<Rightarrow> string \<Rightarrow> string" where
  "Getenv os k = (case environ os k of None \<Rightarrow> [] | Some v \<Rightarrow> v)"

text \<open>
  What the process does to the outside, in order. \<^verbatim>\<open>log.Fatal\<close> writes its line and exits
  with status 1 without running deferred calls, so \<^verbatim>\<open>client.Shutdown\<close> never runs. The
  registration of the exporter and of the two HTTP handlers are recorded as effects; what the
  libraries do with them is outside the program.
\<close>

datatype effect =
  Log_Println string
| Log_Fatal string
| Read_File string
| Client_New ConnConfig
| MustRegister
| Handle string
| Listen string

datatype outcome = Exit nat | Serving

definition main :: "'w OS \<Rightarrow> effect list \<times> outcome" where
  "main os =
     (let host = Getenv os ''BTCD_EXPORTER_HOST'';
          username = Getenv os ''BTCD_EXPORTER_USERNAME'';
          password = Getenv os ''BTCD_EXPORTER_PASSWORD'';
          certPath = Getenv os ''BTCD_EXPORTER_CERT_PATH''
      in
      if host = [] \<or> username = [] \<or> password = [] then
        ([Log_Fatal
           ''BTCD_EXPORTER_HOST, BTCD_EXPORTER_USERNAME, BTCD_EXPORTER_PASSWORD must be set''],
         Exit 1)
      else
        let btcdHomeDir = AppDataDir os ''btcd'' False;
            certPath' = (if certPath = [] then Join os btcdHomeDir ''rpc.cert'' else certPath);
            t1 = (if certPath = []
                  then [Log_Println
                          (''BTCD_EXPORTER_CERT_PATH not set, using default path:  '' @ certPath')]
                  else []) @ [Read_File certPath']
        in
        (case ReadFile os certPath' of
          Inl err \<Rightarrow>
            (t1 @ [Log_Fatal (''error reading cert file: '' @ Error_msg err)], Exit 1)
        | Inr certs \<Rightarrow>
            (let connCfg = \<lparr>Host = host, Endpoint = ''ws'', User = username, Pass = password,
                            Certificates = certs\<rparr>
             in
             (case New os connCfg of
               Inl err \<Rightarrow> (t1 @ [Client_New connCfg, Log_Fatal (Error_msg err)], Exit 1)
             | Inr cl \<Rightarrow>
                 (let exporter = NewExporter cl;
                      t2 = t1 @ [Client_New connCfg, MustRegister, Handle ''/metrics'',
                                 Handle ''/'', Log_Println ''starting server on port 9101'',
                                 Listen '':9101'']
                  in
                  (case ListenAndServe os '':9101'' of
                    Some err \<Rightarrow> (t2 @ [Log_Fatal (Error_msg err)], Exit 1)
                  | None \<Rightarrow> (t2, Serving)))))))"

definition main0 :: "'w OS \<Rightarrow> effect list \<times> outcome" where
  "main0 os =
     (let host = Getenv os ''BTCD_EXPORTER_HOST'';
          username = Getenv os ''BTCD_EXPORTER_USERNAME'';
          password = Getenv os ''BTCD_EXPORTER_PASSWORD''
      in
      if host = [] \<or> username = [] \<or> password = [] then
        ([Log_Fatal
           ''BTCD_EXPORTER_HOST, BTCD_EXPORTER_USERNAME, BTCD_EXPORTER_PASSWORD must be set''],
         Exit 1)
      else
        let connCfg = \<lparr>Host = host, Endpoint = ''ws'', User = username, Pass = password,
                       Certificates = []\<rparr>
        in
        (case New os connCfg of
          Inl err \<Rightarrow> ([Client_New connCfg, Log_Fatal (Error_msg err)], Exit 1)
        | Inr cl \<Rightarrow>
            (let exporter = NewExporter cl;
                 t2 = [Client_New connCfg, MustRegister, Handle ''/metrics'', Handle ''/'',
                       Log_Println ''starting server on 0.0.0.0:9101'', Listen '':9101'']
             in
             (case ListenAndServe os '':9101'' of
               Some err \<Rightarrow> (t2 @ [Log_Fatal (Error_msg err)], Exit 1)
             | None \<Rightarrow> (t2, Serving)))))"

subsection \<open>Observations of one scrape, and the scenarios of the specification\<close>

text \<open>The metric \<^verbatim>\<open>MustNewConstMetric\<close> builds from a descriptor without labels.\<close>

definition const_metric :: "Desc \<Rightarrow> ValueType \<Rightarrow> float64 \<Rightarrow> Metric" where
  "const_metric d vt v = \<lparr>metric_desc = d, valType = vt, metric_val = v, labelValues = []\<rparr>"

text \<open>The queries issued between two states of a scrape.\<close>

definition issued :: "'w state \<Rightarrow> 'w state \<Rightarrow> (rpc_call \<times> rpc_reply) list" where
  "issued s s' = drop (length (rpc_trace s)) (rpc_trace s')"

text \<open>
  What the node itself answers to a sequence of queries put to it one after the other, and
  the state it is left in. A fetch whose trace is this run has issued these queries and no
  others.
\<close>

definition ask :: "'w Client \<Rightarrow> rpc_call \<Rightarrow> 'w \<Rightarrow> rpc_reply \<times> 'w" where
  "ask c q w =
     (case q of
        GetInfo_call \<Rightarrow> (case GetInfo c w of (r, w') \<Rightarrow> (reply_of Info_reply r, w'))
      | GetNetTotals_call \<Rightarrow>
          (case GetNetTotals c w of (r, w') \<Rightarrow> (reply_of NetTotals_reply r, w'))
      | GetBestBlockHash_call \<Rightarrow>
          (case GetBestBlockHash c w of (r, w') \<Rightarrow> (reply_of Hash_reply r, w'))
      | GetBlockHeader_call h \<Rightarrow>
          (case GetBlockHeader c h w of (r, w') \<Rightarrow> (reply_of Header_reply r, w')))"

fun run_node :: "'w Client \<Rightarrow> rpc_call list \<Rightarrow> 'w \<Rightarrow> (rpc_call \<times> rpc_reply) list \<times> 'w" where
  "run_node c [] w = ([], w)"
| "run_node c (q # qs) w =
     (case ask c q w of
        (r, w') \<Rightarrow> (case run_node c qs w' of (t, w'') \<Rightarrow> ((q, r) # t, w'')))"

text \<open>The samples sent between two states of a scrape.\<close>

definition emitted :: "'w state \<Rightarrow> 'w state \<Rightarrow> Metric list" where
  "emitted s s' = drop (length (ch s)) (ch s')"

fun is_error :: "rpc_reply \<Rightarrow> bool" where
  "is_error (Error_reply e) = True"
| "is_error r = False"

definition start :: "'w \<Rightarrow> 'w state" where
  "start w = \<lparr>node = w, rpc_trace = [], ch = [], logged = []\<rparr>"

text \<open>
  A node for the scenarios: its state counts the queries it has answered, query number \<open>n\<close>
  (from 0) is refused, and every other query is answered with the values of Scenarios A
  and C. A header is found for the best block only.
\<close>

definition scenario_info :: InfoWalletResult where
  "scenario_info =
     \<lparr>Blocks = 800000, Connections = 8, Difficulty = Float64 False 1068 2536400372629504\<rparr>"

definition scenario_netTotals :: GetNetTotalsResult where
  "scenario_netTotals = \<lparr>TotalBytesRecv = 2000000, TotalBytesSent = 1000000\<rparr>"

definition scenario_hash :: Hash where
  "scenario_hash = [0, 0, 0, 0, 0, 0, 0, 0, 0, 1, 35, 69, 103, 137, 171, 205]"

definition scenario_header :: BlockHeader where
  "scenario_header = \<lparr>Timestamp = Time 1700000000\<rparr>"

definition answer :: "nat \<Rightarrow> error + 'a \<Rightarrow> nat \<Rightarrow> (error + 'a) \<times> nat" where
  "answer n r w = (if w = n then Inl (Error ''connection refused'') else r, Suc w)"

definition scenario_client :: "nat \<Rightarrow> nat Client" where
  "scenario_client n =
     \<lparr>GetInfo = answer n (Inr scenario_info),
      GetNetTotals = answer n (Inr scenario_netTotals),
      GetBestBlockHash = answer n (Inr scenario_hash),
      GetBlockHeader =
        (\<lambda>h. answer n (if h = scenario_hash then Inr scenario_header
                        else Inl (Error ''block not found'')))\<rparr>"

text \<open>The same node one block later, with one more peer.\<close>

definition later_info :: InfoWalletResult where
  "later_info =
     \<lparr>Blocks = 800001, Connections = 9, Difficulty = Float64 False 1068 2536400372629504\<rparr>"

definition later_client :: "nat \<Rightarrow> nat Client" where
  "later_client n = (scenario_client n)\<lparr>GetInfo := answer n (Inr later_info)\<rparr>"

text \<open>
  A machine for Scenario D: the environment and the files are given as lists; the node is
  reachable and the port is free.
\<close>

definition scenario_os :: "(string \<times> string) list \<Rightarrow> (string \<times> 8 word list) list \<Rightarrow> nat OS" where
  "scenario_os env files =
     \<lparr>environ = map_of env,
      AppDataDir = (\<lambda>app roaming. ''/home/btcd/.'' @ app),
      Join = (\<lambda>a b. a @ ''/'' @ b),
      ReadFile =
        (\<lambda>p. case map_of files p of
                None \<Rightarrow> Inl (Error (''open '' @ p @ '': no such file or directory''))
              | Some b \<Rightarrow> Inr b),
      New = (\<lambda>cfg. Inr (scenario_client 4)),
      ListenAndServe = (\<lambda>addr. None)\<rparr>"


definition required_env :: "(string \<times> string) list" where
  "required_env =
     [(''BTCD_EXPORTER_HOST'', ''localhost:8334''),
      (''BTCD_EXPORTER_USERNAME'', ''rpcuser''),
      (''BTCD_EXPORTER_PASSWORD'', ''rpcpass'')]"

section \<open>Properties\<close>

subsection \<open>Conversions to \<^verbatim>\<open>float64\<close> are exact below \<open>2 ^ 53\<close>\<close>

lemma bit_length_pos: "0 < m \<Longrightarrow> 0 < bit_length m"
  by (subst bit_length.simps) simp

lemma bit_length_bounds:
  "0 < m \<Longrightarrow> 2 ^ (bit_length m - 1) \<le> m \<and> m < 2 ^ bit_length m"
proof (induction m rule: bit_length.induct)
  case (1 n)
  show ?case
  proof (cases "n div 2 = 0")
    case True
    with "1.prems" have "n = 1" by presburger
    then show ?thesis by (simp add: bit_length.simps)
  next
    case False
    then have pos: "0 < n div 2" by simp
    with "1.IH" "1.prems" have IH: "2 ^ (bit_length (n div 2) - 1) \<le> n div 2"
      "n div 2 < 2 ^ bit_length (n div 2)" by auto
    have bl: "bit_length n = Suc (bit_length (n div 2))"
      using "1.prems" by (subst bit_length.simps) simp
    from bit_length_pos [OF pos] obtain k where k: "bit_length (n div 2) = Suc k"
      by (cases "bit_length (n div 2)") auto
    from IH k have "2 * 2 ^ k \<le> 2 * (n div 2)" by simp
    then have lo: "2 ^ Suc k \<le> n" by (simp; presburger)
    from IH k have "n div 2 + 1 \<le> 2 ^ Suc k" by simp
    then have hi: "n < 2 ^ Suc (Suc k)" by (simp; presburger)
    from lo hi bl k show ?thesis by simp
  qed
qed

lemma float64_of_nat_exact:
  assumes "0 < m" "m < 2 ^ 53"
  defines "e \<equiv> bit_length m - 1"
  shows "e \<le> 52" "2 ^ 52 \<le> m * 2 ^ (52 - e)" "m * 2 ^ (52 - e) < 2 ^ 53"
proof -
  from bit_length_bounds [OF assms(1)] have b: "2 ^ e \<le> m" "m < 2 ^ Suc e"
    using bit_length_pos [OF assms(1)] by (auto simp: e_def)
  show e: "e \<le> 52"
  proof (rule ccontr)
    assume "\<not> e \<le> 52"
    then have "53 \<le> e" by simp
    then have "(2::nat) ^ 53 \<le> 2 ^ e" by (rule power_increasing) simp
    with b assms show False by simp
  qed
  have split: "(2::nat) ^ 52 = 2 ^ e * 2 ^ (52 - e)"
    using e by (simp flip: power_add)
  show "2 ^ 52 \<le> m * 2 ^ (52 - e)"
    unfolding split using b(1) by (rule mult_le_mono1)
  have "m * 2 ^ (52 - e) < 2 ^ Suc e * 2 ^ (52 - e)"
    using b(2) by (simp del: power_Suc)
  also have "\<dots> = 2 ^ 53" using e by (simp flip: power_add del: power_Suc)
  finally show "m * 2 ^ (52 - e) < 2 ^ 53" .
qed

lemma float64_val_normal:
  assumes "0 < m" "m < 2 ^ 53"
  shows "float64_val (Float64 sg (bit_length m - 1 + 1023)
            (m * 2 ^ (52 - (bit_length m - 1)) - 2 ^ 52))
         = Some (if sg then - of_nat m else of_nat m)"
proof -
  define e where "e = bit_length m - 1"
  define q where "q = m * 2 ^ (52 - e)"
  from float64_of_nat_exact [OF assms] have e: "e \<le> 52" and q: "2 ^ 52 \<le> q" "q < 2 ^ 53"
    by (simp_all add: e_def q_def)
  have mant: "2 ^ 52 + (q - 2 ^ 52) = q" using q by simp
  have "float64_val (Float64 sg (e + 1023) (q - 2 ^ 52))
         = Some (if sg then - of_nat m else of_nat m)"
  proof (cases "e = 52")
    case True
    then have "q = m" by (simp add: q_def)
    with True mant show ?thesis by (simp add: float64_val_def)
  next
    case False
    with e have lt: "e < 52" by simp
    then have d: "1075 - (e + 1023) = 52 - e" by simp
    have "(of_nat q :: rat) / of_nat (2 ^ (52 - e)) = of_nat m"
      by (simp add: q_def)
    with lt d mant show ?thesis by (simp add: float64_val_def)
  qed
  then show ?thesis by (simp add: e_def q_def)
qed

lemma float64_of_int_exact:
  assumes "\<bar>sint x\<bar> < 2 ^ 53"
  shows "float64_val (float64_of_int x) = Some (of_int (sint x))"
proof (cases "sint x = 0")
  case True
  then show ?thesis by (simp add: float64_of_int_def float64_val_def)
next
  case False
  define m where "m = nat \<bar>sint x\<bar>"
  from False assms have m: "0 < m" "m < 2 ^ 53" by (simp_all add: m_def nat_less_iff)
  from float64_of_nat_exact [OF m] have e: "bit_length m - 1 \<le> 52"
    and q: "m * 2 ^ (52 - (bit_length m - 1)) < 2 ^ 53" by simp_all
  have "float64_of_int x = Float64 (sint x < 0) (bit_length m - 1 + 1023)
            (m * 2 ^ (52 - (bit_length m - 1)) - 2 ^ 52)"
    using False m e q by (simp add: float64_of_int_def Let_def flip: m_def)
  moreover have "(if sint x < 0 then - of_nat m else (of_nat m :: rat)) = of_int (sint x)"
    by (simp add: m_def)
  ultimately show ?thesis using float64_val_normal [OF m, of "sint x < 0"] by simp
qed

lemma float64_of_int32_exact:
  "float64_val (float64_of_int (scast (b :: 32 word))) = Some (of_int (sint b))"
proof -
  have s: "sint (scast b :: 64 word) = sint b"
    by (simp add: sint_up_scast is_up)
  have "- (2 ^ 31) \<le> sint b" "sint b < 2 ^ 31"
    using sint_ge [of b] sint_lt [of b] by simp_all
  then have "\<bar>sint b\<bar> < 2 ^ 53" by simp
  with s show ?thesis using float64_of_int_exact [of "scast b"] by simp
qed

lemma float64_of_uint64_exact:
  assumes "unat (w :: 64 word) < 2 ^ 53"
  shows "float64_val (float64_of_int (ucast w)) = Some (of_nat (unat w))"
proof -
  from assms have "int (unat w) < int (2 ^ 53)" by (simp only: of_nat_less_iff)
  then have "int (unat w) < 2 ^ 53" by (simp only: of_nat_power of_nat_numeral)
  then have u: "uint w < 2 ^ 53" by (simp only: uint_nat)
  have u0: "0 \<le> uint w" by simp
  have "sint w = signed_take_bit 63 (uint w)" by (simp add: sint_uint)
  also have "\<dots> = uint w"
  proof (rule signed_take_bit_int_eq_self)
    have "(0::int) \<le> 2 ^ 63" by simp
    with u0 show "- (2 ^ 63) \<le> uint w" by linarith
    have "(2::int) ^ 53 \<le> 2 ^ 63" by simp
    with u show "uint w < 2 ^ 63" by linarith
  qed
  finally have s: "sint w = int (unat w)" by (simp only: uint_nat)
  with \<open>int (unat w) < 2 ^ 53\<close> have "\<bar>sint w\<bar> < 2 ^ 53" by linarith
  from float64_of_int_exact [OF this] have
    "float64_val (float64_of_int w) = Some (of_int (int (unat w)))" by (simp only: s)
  then show ?thesis by (simp only: ucast_id of_int_of_nat_eq)
qed

lemma float64_val_consts:
  "float64_val float64_zero = Some 0" "float64_val float64_one = Some 1"
  by (simp_all add: float64_val_def float64_zero_def float64_one_def)

subsection \<open>The descriptors are well formed, so no sample constructor panics\<close>

lemmas table_defs = up_def blocks_def latestBlock_def peers_def difficulty_def bytesSent_def
  bytesReceived_def

lemma fqName_table:
  "fqName up = ''btcd_up''"
  "fqName blocks = ''btcd_blocks_total''"
  "fqName peers = ''btcd_peers''"
  "fqName difficulty = ''btcd_difficulty''"
  "fqName bytesSent = ''btcd_sent_bytes''"
  "fqName bytesReceived = ''btcd_received_bytes''"
  "fqName latestBlock = ''btcd_latest_block_timestamp''"
  by (simp_all add: table_defs NewDesc_def BuildFQName_def namespace_def)

lemma desc_err_table:
  "desc_err up = None" "desc_err blocks = None" "desc_err peers = None"
  "desc_err difficulty = None" "desc_err bytesSent = None" "desc_err bytesReceived = None"
  "desc_err latestBlock = None"
  by (simp_all add: table_defs NewDesc_def BuildFQName_def namespace_def IsValidMetricName_def
      is_name_start_def is_name_char_def)

lemma variableLabels_table:
  "variableLabels up = []" "variableLabels blocks = []" "variableLabels peers = []"
  "variableLabels difficulty = []" "variableLabels bytesSent = []"
  "variableLabels bytesReceived = []" "variableLabels latestBlock = []"
  by (simp_all add: table_defs NewDesc_def)

lemma emit_valid:
  "desc_err d = None \<Longrightarrow> variableLabels d = [] \<Longrightarrow>
     emit d vt v s = (None, send (const_metric d vt v) s)"
  by (simp add: emit_def MustNewConstMetric_def NewConstMetric_def const_metric_def)

lemma emit_table:
  "emit up vt v s = (None, send (const_metric up vt v) s)"
  "emit blocks vt v s = (None, send (const_metric blocks vt v) s)"
  "emit peers vt v s = (None, send (const_metric peers vt v) s)"
  "emit difficulty vt v s = (None, send (const_metric difficulty vt v) s)"
  "emit bytesSent vt v s = (None, send (const_metric bytesSent vt v) s)"
  "emit bytesReceived vt v s = (None, send (const_metric bytesReceived vt v) s)"
  "emit latestBlock vt v s = (None, send (const_metric latestBlock vt v) s)"
  by (simp_all add: emit_valid desc_err_table variableLabels_table)

subsection \<open>The outcomes of one fetch and of one scrape\<close>

lemma GetAllStatistics_outcomes:
  assumes "GetAllStatistics e s = (r, s')"
  shows "ch s' = ch s \<and> logged s' = logged s \<and> rpc_trace s' = rpc_trace s @ issued s s' \<and>
      ((\<exists>er. issued s s' = [(GetInfo_call, Error_reply er)] \<and> r = (None, Some er)) \<or>
       (\<exists>info er. issued s s' =
             [(GetInfo_call, Info_reply info), (GetNetTotals_call, Error_reply er)]
           \<and> r = (None, Some er)) \<or>
       (\<exists>info nt er. issued s s' =
             [(GetInfo_call, Info_reply info), (GetNetTotals_call, NetTotals_reply nt),
              (GetBestBlockHash_call, Error_reply er)]
           \<and> r = (None, Some er)) \<or>
       (\<exists>info nt h er. issued s s' =
             [(GetInfo_call, Info_reply info), (GetNetTotals_call, NetTotals_reply nt),
              (GetBestBlockHash_call, Hash_reply h), (GetBlockHeader_call h, Error_reply er)]
           \<and> r = (None, Some er)) \<or>
       (\<exists>info nt h hdr. issued s s' =
             [(GetInfo_call, Info_reply info), (GetNetTotals_call, NetTotals_reply nt),
              (GetBestBlockHash_call, Hash_reply h), (GetBlockHeader_call h, Header_reply hdr)]
           \<and> r = (Some (newBtcdStatistics (scast (Blocks info)) (scast (Connections info))
                          (Difficulty info) (ucast (TotalBytesSent nt))
                          (ucast (TotalBytesRecv nt)) (ucast (Unix (Timestamp hdr)))), None)))"
  using assms
  by (auto simp: GetAllStatistics_def query_def reply_of_def issued_def
      split: prod.splits sum.splits)

lemma GetAllStatistics0_outcomes:
  assumes "GetAllStatistics0 e s = (r, s')"
  shows "ch s' = ch s \<and> logged s' = logged s \<and> rpc_trace s' = rpc_trace s @ issued s s' \<and>
      ((\<exists>er. issued s s' = [(GetInfo_call, Error_reply er)] \<and> r = (None, Some er)) \<or>
       (\<exists>info er. issued s s' =
             [(GetInfo_call, Info_reply info), (GetNetTotals_call, Error_reply er)]
           \<and> r = (None, Some er)) \<or>
       (\<exists>info nt. issued s s' =
             [(GetInfo_call, Info_reply info), (GetNetTotals_call, NetTotals_reply nt)]
           \<and> r = (Some (newBtcdStatistics0 (scast (Blocks info)) (scast (Connections info))
                          (Difficulty info) (ucast (TotalBytesSent nt))
                          (ucast (TotalBytesRecv nt))), None)))"
  using assms
  by (auto simp: GetAllStatistics0_def query_def reply_of_def issued_def
      split: prod.splits sum.splits)

lemma send_simps [simp]:
  "ch (send m s) = ch s @ [m]" "rpc_trace (send m s) = rpc_trace s"
  "logged (send m s) = logged s" "node (send m s) = node s"
  by (simp_all add: send_def)

lemma Println_simps [simp]:
  "ch (Println l s) = ch s" "rpc_trace (Println l s) = rpc_trace s"
  "logged (Println l s) = logged s @ [l]" "node (Println l s) = node s"
  by (simp_all add: Println_def)

lemma issued_send [simp]: "issued s (send m s') = issued s s'"
  by (simp add: issued_def)

lemma issued_Println [simp]: "issued s (Println l s') = issued s s'"
  by (simp add: issued_def)

lemma Collect_metrics_failure:
  assumes "GetAllStatistics e s = ((st, Some er), s1)"
  shows "Collect_metrics e s =
           (None, Println (Error_msg er) (send (const_metric up GaugeValue float64_zero) s1))"
  using assms by (simp add: Collect_metrics_def then_do_def emit_table)

lemma Collect_metrics_success:
  assumes "GetAllStatistics e s = ((Some st, None), s1)"
  shows "Collect_metrics e s =
           (None,
            send (const_metric latestBlock GaugeValue (float64_of_int (stat_latestBlockTs st)))
           (send (const_metric bytesReceived GaugeValue (float64_of_int (stat_bytesReceived st)))
           (send (const_metric bytesSent CounterValue (float64_of_int (stat_bytesSent st)))
           (send (const_metric difficulty GaugeValue (stat_difficulty st))
           (send (const_metric peers GaugeValue (float64_of_int (stat_peers st)))
           (send (const_metric blocks CounterValue (float64_of_int (stat_blocks st)))
           (send (const_metric up GaugeValue float64_one) s1)))))))"
  using assms by (simp add: Collect_metrics_def then_do_def emit_table)

lemma Collect_metrics0_failure:
  assumes "GetAllStatistics0 e s = ((st, Some er), s1)"
  shows "Collect_metrics0 e s =
           (None, Println (Error_msg er) (send (const_metric up GaugeValue float64_zero) s1))"
  using assms by (simp add: Collect_metrics0_def then_do_def emit_table)

lemma Collect_metrics0_success:
  assumes "GetAllStatistics0 e s = ((Some st, None), s1)"
  shows "Collect_metrics0 e s =
           (None,
            send (const_metric bytesReceived GaugeValue (float64_of_int (stat0_bytesReceived st)))
           (send (const_metric bytesSent CounterValue (float64_of_int (stat0_bytesSent st)))
           (send (const_metric difficulty GaugeValue (stat0_difficulty st))
           (send (const_metric peers GaugeValue (float64_of_int (stat0_peers st)))
           (send (const_metric blocks CounterValue (float64_of_int (stat0_blocks st)))
           (send (const_metric up GaugeValue float64_one) s1))))))"
  using assms by (simp add: Collect_metrics0_def then_do_def emit_table)

text \<open>
  A scrape goes one of two ways: a query fails, it is the last one issued, and the scrape
  sends \<open>up = 0\<close> and logs the error; or all queries succeed and the scrape sends the whole
  table. In neither does it panic.
\<close>

lemma Collect_metrics_cases [consumes 1, case_names failed succeeded]:
  assumes run: "Collect_metrics e s = (p, s')"
  obtains
    (failed) t c er where
      "issued s s' = t @ [(c, Error_reply er)]" "\<forall>ev\<in>set t. \<not> is_error (snd ev)"
      "p = None" "ch s' = ch s @ [const_metric up GaugeValue float64_zero]"
      "logged s' = logged s @ [Error_msg er]"
  | (succeeded) info nt h hdr st s1 where
      "issued s s' =
         [(GetInfo_call, Info_reply info), (GetNetTotals_call, NetTotals_reply nt),
          (GetBestBlockHash_call, Hash_reply h), (GetBlockHeader_call h, Header_reply hdr)]"
      "GetAllStatistics e s = ((Some st, None), s1)"
      "st = newBtcdStatistics (scast (Blocks info)) (scast (Connections info))
              (Difficulty info) (ucast (TotalBytesSent nt)) (ucast (TotalBytesRecv nt))
              (ucast (Unix (Timestamp hdr)))"
      "p = None"
      "ch s' = ch s @
         [const_metric up GaugeValue float64_one,
          const_metric blocks CounterValue (float64_of_int (stat_blocks st)),
          const_metric peers GaugeValue (float64_of_int (stat_peers st)),
          const_metric difficulty GaugeValue (stat_difficulty st),
          const_metric bytesSent CounterValue (float64_of_int (stat_bytesSent st)),
          const_metric bytesReceived GaugeValue (float64_of_int (stat_bytesReceived st)),
          const_metric latestBlock GaugeValue (float64_of_int (stat_latestBlockTs st))]"
      "logged s' = logged s"
proof -
  obtain r s1 where g: "GetAllStatistics e s = (r, s1)" by (cases "GetAllStatistics e s")
  note o = GetAllStatistics_outcomes [OF g]
  from o have base: "ch s1 = ch s" "logged s1 = logged s" by simp_all
  from o consider
      (f) t c er where "issued s s1 = t @ [(c, Error_reply er)]"
        "\<forall>ev\<in>set t. \<not> is_error (snd ev)" "r = (None, Some er)"
    | (k) info nt h hdr where "issued s s1 =
         [(GetInfo_call, Info_reply info), (GetNetTotals_call, NetTotals_reply nt),
          (GetBestBlockHash_call, Hash_reply h), (GetBlockHeader_call h, Header_reply hdr)]"
        "r = (Some (newBtcdStatistics (scast (Blocks info)) (scast (Connections info))
                (Difficulty info) (ucast (TotalBytesSent nt)) (ucast (TotalBytesRecv nt))
                (ucast (Unix (Timestamp hdr)))), None)"
    by (elim conjE disjE exE) (fastforce+)
  then show thesis
  proof cases
    case f
    from g f(3) have "Collect_metrics e s =
        (None, Println (Error_msg er) (send (const_metric up GaugeValue float64_zero) s1))"
      by (intro Collect_metrics_failure) simp
    with run have "p = None"
      "s' = Println (Error_msg er) (send (const_metric up GaugeValue float64_zero) s1)"
      by simp_all
    with f base show thesis by (intro failed [of t c er]) simp_all
  next
    case k
    define st where "st = newBtcdStatistics (scast (Blocks info)) (scast (Connections info))
                (Difficulty info) (ucast (TotalBytesSent nt)) (ucast (TotalBytesRecv nt))
                (ucast (Unix (Timestamp hdr)))"
    from g k(2) have g': "GetAllStatistics e s = ((Some st, None), s1)" by (simp add: st_def)
    from run Collect_metrics_success [OF g'] have "p = None" and
      s': "s' = send (const_metric latestBlock GaugeValue (float64_of_int (stat_latestBlockTs st)))
           (send (const_metric bytesReceived GaugeValue (float64_of_int (stat_bytesReceived st)))
           (send (const_metric bytesSent CounterValue (float64_of_int (stat_bytesSent st)))
           (send (const_metric difficulty GaugeValue (stat_difficulty st))
           (send (const_metric peers GaugeValue (float64_of_int (stat_peers st)))
           (send (const_metric blocks CounterValue (float64_of_int (stat_blocks st)))
           (send (const_metric up GaugeValue float64_one) s1))))))"
      by simp_all
    show thesis
      by (rule succeeded [of info nt h hdr st s1])
         (use k g' base \<open>p = None\<close> in \<open>simp_all add: s' st_def\<close>)
  qed
qed

lemma Collect_metrics0_cases [consumes 1, case_names failed succeeded]:
  assumes run: "Collect_metrics0 e s = (p, s')"
  obtains
    (failed) t c er where
      "issued s s' = t @ [(c, Error_reply er)]" "\<forall>ev\<in>set t. \<not> is_error (snd ev)"
      "p = None" "ch s' = ch s @ [const_metric up GaugeValue float64_zero]"
      "logged s' = logged s @ [Error_msg er]"
  | (succeeded) info nt st s1 where
      "issued s s' =
         [(GetInfo_call, Info_reply info), (GetNetTotals_call, NetTotals_reply nt)]"
      "GetAllStatistics0 e s = ((Some st, None), s1)"
      "st = newBtcdStatistics0 (scast (Blocks info)) (scast (Connections info))
              (Difficulty info) (ucast (TotalBytesSent nt)) (ucast (TotalBytesRecv nt))"
      "p = None"
      "ch s' = ch s @
         [const_metric up GaugeValue float64_one,
          const_metric blocks CounterValue (float64_of_int (stat0_blocks st)),
          const_metric peers GaugeValue (float64_of_int (stat0_peers st)),
          const_metric difficulty GaugeValue (stat0_difficulty st),
          const_metric bytesSent CounterValue (float64_of_int (stat0_bytesSent st)),
          const_metric bytesReceived GaugeValue (float64_of_int (stat0_bytesReceived st))]"
      "logged s' = logged s"
proof -
  obtain r s1 where g: "GetAllStatistics0 e s = (r, s1)" by (cases "GetAllStatistics0 e s")
  note o = GetAllStatistics0_outcomes [OF g]
  from o have base: "ch s1 = ch s" "logged s1 = logged s" by simp_all
  from o consider
      (f) t c er where "issued s s1 = t @ [(c, Error_reply er)]"
        "\<forall>ev\<in>set t. \<not> is_error (snd ev)" "r = (None, Some er)"
    | (k) info nt where "issued s s1 =
         [(GetInfo_call, Info_reply info), (GetNetTotals_call, NetTotals_reply nt)]"
        "r = (Some (newBtcdStatistics0 (scast (Blocks info)) (scast (Connections info))
                (Difficulty info) (ucast (TotalBytesSent nt)) (ucast (TotalBytesRecv nt))),
              None)"
    by (elim conjE disjE exE) (fastforce+)
  then show thesis
  proof cases
    case f
    from g f(3) have "Collect_metrics0 e s =
        (None, Println (Error_msg er) (send (const_metric up GaugeValue float64_zero) s1))"
      by (intro Collect_metrics0_failure) simp
    with run have "p = None"
      "s' = Println (Error_msg er) (send (const_metric up GaugeValue float64_zero) s1)"
      by simp_all
    with f base show thesis by (intro failed [of t c er]) simp_all
  next
    case k
    define st where "st = newBtcdStatistics0 (scast (Blocks info)) (scast (Connections info))
                (Difficulty info) (ucast (TotalBytesSent nt)) (ucast (TotalBytesRecv nt))"
    from g k(2) have g': "GetAllStatistics0 e s = ((Some st, None), s1)" by (simp add: st_def)
    from run Collect_metrics0_success [OF g'] have "p = None" and
      s': "s' = send (const_metric bytesReceived GaugeValue (float64_of_int (stat0_bytesReceived st)))
           (send (const_metric bytesSent CounterValue (float64_of_int (stat0_bytesSent st)))
           (send (const_metric difficulty GaugeValue (stat0_difficulty st))
           (send (const_metric peers GaugeValue (float64_of_int (stat0_peers st)))
           (send (const_metric blocks CounterValue (float64_of_int (stat0_blocks st)))
           (send (const_metric up GaugeValue float64_one) s1)))))"
      by simp_all
    show thesis
      by (rule succeeded [of info nt st s1])
         (use k g' base \<open>p = None\<close> in \<open>simp_all add: s' st_def\<close>)
  qed
qed

lemma error_in_failed_trace:
  assumes "\<forall>ev\<in>set t. \<not> is_error (snd ev)" "(c', Error_reply er') \<in> set (t @ [(c, Error_reply er)])"
  shows "c' = c \<and> er' = er"
  using assms by auto

lemma stat_fields [simp]:
  "stat_blocks (newBtcdStatistics b p d sent recv ts) = b"
  "stat_peers (newBtcdStatistics b p d sent recv ts) = p"
  "stat_difficulty (newBtcdStatistics b p d sent recv ts) = d"
  "stat_bytesSent (newBtcdStatistics b p d sent recv ts) = sent"
  "stat_bytesReceived (newBtcdStatistics b p d sent recv ts) = recv"
  "stat_latestBlockTs (newBtcdStatistics b p d sent recv ts) = ts"
  by (simp_all add: newBtcdStatistics_def)

lemma stat0_fields [simp]:
  "stat0_blocks (newBtcdStatistics0 b p d sent recv) = b"
  "stat0_peers (newBtcdStatistics0 b p d sent recv) = p"
  "stat0_difficulty (newBtcdStatistics0 b p d sent recv) = d"
  "stat0_bytesSent (newBtcdStatistics0 b p d sent recv) = sent"
  "stat0_bytesReceived (newBtcdStatistics0 b p d sent recv) = recv"
  by (simp_all add: newBtcdStatistics0_def)

lemmas scenario_defs = scenario_client_def answer_def scenario_info_def scenario_netTotals_def
  scenario_hash_def scenario_header_def start_def NewExporter_def

lemmas run_defs = GetAllStatistics_def GetAllStatistics0_def query_def reply_of_def
  Collect_metrics_def Collect_metrics0_def then_do_def emit_table send_def Println_def
  issued_def emitted_def


subsection \<open>A scrape in which a query fails\<close>

lemma failed_scrape:
  assumes "Collect_metrics e s = (p, s')" "(c, Error_reply er) \<in> set (issued s s')"
  shows "p = None \<and> ch s' = ch s @ [const_metric up GaugeValue float64_zero]
         \<and> logged s' = logged s @ [Error_msg er]"
  using assms(1)
proof (cases rule: Collect_metrics_cases)
  case (failed t c' er')
  with assms(2) have "er = er'" using error_in_failed_trace by fastforce
  with failed show ?thesis by simp
next
  case (succeeded info nt h hdr st s1)
  with assms(2) show ?thesis by auto
qed

lemma failed_scrape0:
  assumes "Collect_metrics0 e s = (p, s')" "(c, Error_reply er) \<in> set (issued s s')"
  shows "p = None \<and> ch s' = ch s @ [const_metric up GaugeValue float64_zero]
         \<and> logged s' = logged s @ [Error_msg er]"
  using assms(1)
proof (cases rule: Collect_metrics0_cases)
  case (failed t c' er')
  with assms(2) have "er = er'" using error_in_failed_trace by fastforce
  with failed show ?thesis by simp
next
  case (succeeded info nt st s1)
  with assms(2) show ?thesis by auto
qed


text \<open>
  C1. Whenever some upstream query of a scrape fails, in either variant, \<^verbatim>\<open>Collect\<close> returns
  without a panic, the samples it sent are exactly one, the gauge \<open>up\<close> with value 0, and
  the log has gained exactly the text of the error of the failed query.
\<close>

theorem failed_scrape_emits_only_up_0:
  "(Collect_metrics e s = (p, s') \<and> (c, Error_reply er) \<in> set (issued s s') \<longrightarrow>
      p = None \<and> emitted s s' = [const_metric up GaugeValue float64_zero]
      \<and> ch s' = ch s @ emitted s s' \<and> logged s' = logged s @ [Error_msg er])
   \<and> (Collect_metrics0 e0 s0 = (p0, s0') \<and> (c0, Error_reply er0) \<in> set (issued s0 s0') \<longrightarrow>
      p0 = None \<and> emitted s0 s0' = [const_metric up GaugeValue float64_zero]
      \<and> ch s0' = ch s0 @ emitted s0 s0' \<and> logged s0' = logged s0 @ [Error_msg er0])
   \<and> valType (const_metric up GaugeValue float64_zero) = GaugeValue
   \<and> float64_val (metric_val (const_metric up GaugeValue float64_zero)) = Some 0"
  using failed_scrape [of e s p s' c er] failed_scrape0 [of e0 s0 p0 s0' c0 er0]
  by (simp add: emitted_def const_metric_def float64_val_consts)

text \<open>
  Scenario B in the extended variant (\<^verbatim>\<open>getInfo\<close> is refused), and in the basic variant a
  refusal of \<^verbatim>\<open>getNetTotals\<close> after \<^verbatim>\<open>getInfo\<close> has succeeded.
\<close>

theorem failed_scrape_emits_only_up_0_witness:
  "Collect_metrics (NewExporter (scenario_client 0)) (start 0) =
     (None, \<lparr>node = 1, rpc_trace = [(GetInfo_call, Error_reply (Error ''connection refused''))],
             ch = [const_metric up GaugeValue float64_zero],
             logged = [''connection refused'']\<rparr>)
   \<and> (GetInfo_call, Error_reply (Error ''connection refused''))
       \<in> set (issued (start 0)
               (snd (Collect_metrics (NewExporter (scenario_client 0)) (start 0))))
   \<and> emitted (start 0) (snd (Collect_metrics (NewExporter (scenario_client 0)) (start 0)))
       = [const_metric up GaugeValue float64_zero]
   \<and> Collect_metrics0 (NewExporter (scenario_client 1)) (start 0) =
     (None, \<lparr>node = 2,
             rpc_trace = [(GetInfo_call, Info_reply scenario_info),
                          (GetNetTotals_call, Error_reply (Error ''connection refused''))],
             ch = [const_metric up GaugeValue float64_zero],
             logged = [''connection refused'']\<rparr>)
   \<and> emitted (start 0) (snd (Collect_metrics0 (NewExporter (scenario_client 1)) (start 0)))
       = [const_metric up GaugeValue float64_zero]"
proof -
  let ?s1 = "\<lparr>node = 1::nat,
               rpc_trace = [(GetInfo_call, Error_reply (Error ''connection refused''))],
               ch = [const_metric up GaugeValue float64_zero],
               logged = [''connection refused'']\<rparr>"
  let ?s2 = "\<lparr>node = 2::nat,
               rpc_trace = [(GetInfo_call, Info_reply scenario_info),
                            (GetNetTotals_call, Error_reply (Error ''connection refused''))],
               ch = [const_metric up GaugeValue float64_zero],
               logged = [''connection refused'']\<rparr>"
  have r1: "Collect_metrics (NewExporter (scenario_client 0)) (start 0) = (None, ?s1)"
    by (simp add: scenario_defs run_defs)
  have i1: "(GetInfo_call, Error_reply (Error ''connection refused''))
             \<in> set (issued (start 0) ?s1)"
    by (simp add: issued_def start_def)
  have r2: "Collect_metrics0 (NewExporter (scenario_client 1)) (start 0) = (None, ?s2)"
    by (simp add: scenario_defs run_defs)
  have i2: "(GetNetTotals_call, Error_reply (Error ''connection refused''))
             \<in> set (issued (start 0) ?s2)"
    by (simp add: issued_def start_def)
  from failed_scrape_emits_only_up_0
         [of "NewExporter (scenario_client 0)" "start 0" None ?s1 GetInfo_call
             "Error ''connection refused''"
             "NewExporter (scenario_client 1)" "start 0" None ?s2 GetNetTotals_call
             "Error ''connection refused''"]
       r1 i1 r2 i2
  have e: "emitted (start 0) ?s1 = [const_metric up GaugeValue float64_zero]"
       "emitted (start 0) ?s2 = [const_metric up GaugeValue float64_zero]"
    by blast+
  show ?thesis unfolding r1 r2 snd_conv by (intro conjI refl i1 e)
qed

subsection \<open>The order of the queries\<close>

lemma fetch_is_run:
  assumes "GetAllStatistics e s = (r, s')"
  shows "run_node (client e) (map fst (issued s s')) (node s) = (issued s s', node s')"
  using assms
  by (auto simp: GetAllStatistics_def query_def reply_of_def issued_def ask_def
      split: prod.splits sum.splits)

lemma fetch_is_run0:
  assumes "GetAllStatistics0 e s = (r, s')"
  shows "run_node (client e) (map fst (issued s s')) (node s) = (issued s s', node s')"
  using assms
  by (auto simp: GetAllStatistics0_def query_def reply_of_def issued_def ask_def
      split: prod.splits sum.splits)

lemma fetch_order:
  assumes "GetAllStatistics e s = (r, s')"
  shows "rpc_trace s' = rpc_trace s @ issued s s' \<and> issued s s' \<noteq> []
      \<and> (\<exists>h. map fst (issued s s') =
               take (length (issued s s'))
                 [GetInfo_call, GetNetTotals_call, GetBestBlockHash_call, GetBlockHeader_call h])
      \<and> (\<forall>i < length (issued s s'). is_error (snd (issued s s' ! i))
             \<longrightarrow> Suc i = length (issued s s'))
      \<and> ((\<forall>ev\<in>set (issued s s'). \<not> is_error (snd ev)) \<longrightarrow> length (issued s s') = 4)
      \<and> (\<forall>er. (GetInfo_call, Error_reply er) \<in> set (issued s s')
             \<longrightarrow> issued s s' = [(GetInfo_call, Error_reply er)])"
  using GetAllStatistics_outcomes [OF assms]
  by (elim conjE disjE exE) (auto simp: less_Suc_eq nth_Cons')

lemma fetch_order0:
  assumes "GetAllStatistics0 e s = (r, s')"
  shows "rpc_trace s' = rpc_trace s @ issued s s' \<and> issued s s' \<noteq> []
      \<and> map fst (issued s s') = take (length (issued s s')) [GetInfo_call, GetNetTotals_call]
      \<and> (\<forall>i < length (issued s s'). is_error (snd (issued s s' ! i))
             \<longrightarrow> Suc i = length (issued s s'))
      \<and> ((\<forall>ev\<in>set (issued s s'). \<not> is_error (snd ev)) \<longrightarrow> length (issued s s') = 2)
      \<and> (\<forall>er. (GetInfo_call, Error_reply er) \<in> set (issued s s')
             \<longrightarrow> issued s s' = [(GetInfo_call, Error_reply er)])"
  using GetAllStatistics0_outcomes [OF assms]
  by (elim conjE disjE exE) (auto simp: less_Suc_eq nth_Cons')

text \<open>
  C3. In one fetch the queries are issued in the fixed order \<^verbatim>\<open>getInfo\<close>,
  \<^verbatim>\<open>getNetTotals\<close>, and in the extended variant \<^verbatim>\<open>getBestBlockHash\<close>, \<^verbatim>\<open>getBlockHeader\<close>:
  the queries issued are a non-empty initial part of that sequence, each put to the node in
  the state the previous one left it in and to the node no more than these, a query that
  fails is the last one issued, all queries are issued when none fails, and when \<^verbatim>\<open>getInfo\<close>
  fails it is the only query issued.
\<close>

theorem queries_sequential_short_circuit:
  "(GetAllStatistics e s = (r, s') \<longrightarrow>
      rpc_trace s' = rpc_trace s @ issued s s' \<and> issued s s' \<noteq> []
      \<and> run_node (client e) (map fst (issued s s')) (node s) = (issued s s', node s')
      \<and> (\<exists>h. map fst (issued s s') =
               take (length (issued s s'))
                 [GetInfo_call, GetNetTotals_call, GetBestBlockHash_call, GetBlockHeader_call h])
      \<and> (\<forall>i < length (issued s s'). is_error (snd (issued s s' ! i))
             \<longrightarrow> Suc i = length (issued s s'))
      \<and> ((\<forall>ev\<in>set (issued s s'). \<not> is_error (snd ev)) \<longrightarrow> length (issued s s') = 4)
      \<and> (\<forall>er. (GetInfo_call, Error_reply er) \<in> set (issued s s')
             \<longrightarrow> issued s s' = [(GetInfo_call, Error_reply er)]))
   \<and> (GetAllStatistics0 e0 s0 = (r0, s0') \<longrightarrow>
      rpc_trace s0' = rpc_trace s0 @ issued s0 s0' \<and> issued s0 s0' \<noteq> []
      \<and> run_node (client e0) (map fst (issued s0 s0')) (node s0) = (issued s0 s0', node s0')
      \<and> map fst (issued s0 s0') =
            take (length (issued s0 s0')) [GetInfo_call, GetNetTotals_call]
      \<and> (\<forall>i < length (issued s0 s0'). is_error (snd (issued s0 s0' ! i))
             \<longrightarrow> Suc i = length (issued s0 s0'))
      \<and> ((\<forall>ev\<in>set (issued s0 s0'). \<not> is_error (snd ev)) \<longrightarrow> length (issued s0 s0') = 2)
      \<and> (\<forall>er. (GetInfo_call, Error_reply er) \<in> set (issued s0 s0')
             \<longrightarrow> issued s0 s0' = [(GetInfo_call, Error_reply er)]))"
  using fetch_order [of e s r s'] fetch_order0 [of e0 s0 r0 s0']
    fetch_is_run [of e s r s'] fetch_is_run0 [of e0 s0 r0 s0']
  by blast

text \<open>
  In the extended variant \<^verbatim>\<open>getBestBlockHash\<close> is refused and \<^verbatim>\<open>getBlockHeader\<close> is not
  issued; in the basic variant \<^verbatim>\<open>getInfo\<close> is refused and \<^verbatim>\<open>getNetTotals\<close> is not issued.
\<close>

theorem queries_sequential_short_circuit_witness:
  "GetAllStatistics (NewExporter (scenario_client 2)) (start 0) =
     ((None, Some (Error ''connection refused'')),
      \<lparr>node = 3,
       rpc_trace = [(GetInfo_call, Info_reply scenario_info),
                    (GetNetTotals_call, NetTotals_reply scenario_netTotals),
                    (GetBestBlockHash_call, Error_reply (Error ''connection refused''))],
       ch = [], logged = []\<rparr>)
   \<and> is_error (snd (issued (start 0)
         (snd (GetAllStatistics (NewExporter (scenario_client 2)) (start 0))) ! 2))
   \<and> length (issued (start 0)
         (snd (GetAllStatistics (NewExporter (scenario_client 2)) (start 0)))) = 3
   \<and> GetAllStatistics0 (NewExporter (scenario_client 0)) (start 0) =
     ((None, Some (Error ''connection refused'')),
      \<lparr>node = 1,
       rpc_trace = [(GetInfo_call, Error_reply (Error ''connection refused''))],
       ch = [], logged = []\<rparr>)
   \<and> (GetInfo_call, Error_reply (Error ''connection refused''))
       \<in> set (issued (start 0)
               (snd (GetAllStatistics0 (NewExporter (scenario_client 0)) (start 0))))
   \<and> issued (start 0) (snd (GetAllStatistics0 (NewExporter (scenario_client 0)) (start 0)))
       = [(GetInfo_call, Error_reply (Error ''connection refused''))]"
proof -
  let ?s3 = "\<lparr>node = 3::nat,
       rpc_trace = [(GetInfo_call, Info_reply scenario_info),
                    (GetNetTotals_call, NetTotals_reply scenario_netTotals),
                    (GetBestBlockHash_call, Error_reply (Error ''connection refused''))],
       ch = [], logged = []\<rparr>"
  let ?s1 = "\<lparr>node = 1::nat,
       rpc_trace = [(GetInfo_call, Error_reply (Error ''connection refused''))],
       ch = [], logged = []\<rparr>"
  have r3: "GetAllStatistics (NewExporter (scenario_client 2)) (start 0) =
              ((None, Some (Error ''connection refused'')), ?s3)"
    by (simp add: scenario_defs run_defs)
  have r1: "GetAllStatistics0 (NewExporter (scenario_client 0)) (start 0) =
              ((None, Some (Error ''connection refused'')), ?s1)"
    by (simp add: scenario_defs run_defs)
  have h3: "is_error (snd (issued (start 0) ?s3 ! 2))" "2 < length (issued (start 0) ?s3)"
    by (simp_all add: issued_def start_def)
  have h1: "(GetInfo_call, Error_reply (Error ''connection refused''))
              \<in> set (issued (start 0) ?s1)"
    by (simp add: issued_def start_def)
  note inst = queries_sequential_short_circuit
         [of "NewExporter (scenario_client 2)" "start 0"
             "(None, Some (Error ''connection refused''))" ?s3
             "NewExporter (scenario_client 0)" "start 0"
             "(None, Some (Error ''connection refused''))" ?s1]
  from inst r3 h3 have "Suc 2 = length (issued (start 0) ?s3)" by blast
  then have l3: "length (issued (start 0) ?s3) = 3" by simp
  from inst r1 h1 have
    l1: "issued (start 0) ?s1 = [(GetInfo_call, Error_reply (Error ''connection refused''))]"
    by blast
  show ?thesis unfolding r3 r1 snd_conv by (intro conjI refl h3(1) l3 h1 l1)
qed

subsection \<open>The snapshot is whole or absent\<close>

lemma snapshot_whole:
  assumes "GetAllStatistics e s = ((st, err), s')"
  shows "ch s' = ch s \<and>
      ((st = None \<and> (\<exists>c er. err = Some er \<and> last (issued s s') = (c, Error_reply er)))
       \<or> (err = None \<and> (\<exists>info nt h hdr.
             issued s s' =
               [(GetInfo_call, Info_reply info), (GetNetTotals_call, NetTotals_reply nt),
                (GetBestBlockHash_call, Hash_reply h),
                (GetBlockHeader_call h, Header_reply hdr)]
             \<and> st = Some \<lparr>stat_blocks = scast (Blocks info),
                           stat_peers = scast (Connections info),
                           stat_difficulty = Difficulty info,
                           stat_bytesSent = ucast (TotalBytesSent nt),
                           stat_bytesReceived = ucast (TotalBytesRecv nt),
                           stat_latestBlockTs = ucast (Unix (Timestamp hdr))\<rparr>)))"
  using GetAllStatistics_outcomes [OF assms]
  by (elim conjE disjE exE) (auto simp: newBtcdStatistics_def)

lemma snapshot_whole0:
  assumes "GetAllStatistics0 e s = ((st, err), s')"
  shows "ch s' = ch s \<and>
      ((st = None \<and> (\<exists>c er. err = Some er \<and> last (issued s s') = (c, Error_reply er)))
       \<or> (err = None \<and> (\<exists>info nt.
             issued s s' =
               [(GetInfo_call, Info_reply info), (GetNetTotals_call, NetTotals_reply nt)]
             \<and> st = Some \<lparr>stat0_blocks = scast (Blocks info),
                           stat0_peers = scast (Connections info),
                           stat0_difficulty = Difficulty info,
                           stat0_bytesSent = ucast (TotalBytesSent nt),
                           stat0_bytesReceived = ucast (TotalBytesRecv nt)\<rparr>)))"
  using GetAllStatistics0_outcomes [OF assms]
  by (elim conjE disjE exE) (auto simp: newBtcdStatistics0_def)

lemma no_snapshot_no_samples:
  assumes "GetAllStatistics e s = ((None, err), s1)" "Collect_metrics e s = (p, s')"
  shows "emitted s s' = [const_metric up GaugeValue float64_zero]"
  using assms(2)
proof (cases rule: Collect_metrics_cases)
  case (failed t c er)
  then show ?thesis by (simp add: emitted_def)
next
  case (succeeded info nt h hdr st s2)
  with assms(1) show ?thesis by simp
qed

lemma no_snapshot_no_samples0:
  assumes "GetAllStatistics0 e s = ((None, err), s1)" "Collect_metrics0 e s = (p, s')"
  shows "emitted s s' = [const_metric up GaugeValue float64_zero]"
  using assms(2)
proof (cases rule: Collect_metrics0_cases)
  case (failed t c er)
  then show ?thesis by (simp add: emitted_def)
next
  case (succeeded info nt st s2)
  with assms(1) show ?thesis by simp
qed

text \<open>
  C4. \<^verbatim>\<open>GetAllStatistics\<close> sends nothing and returns either no snapshot together with the
  error of the query issued last, or no error together with a snapshot whose every field comes
  from the reply to a query of this fetch, all of which succeeded. Whenever it returns no
  snapshot, whatever was fetched before the failure is not sent: the scrape sends \<open>up = 0\<close>
  alone.
\<close>

theorem snapshot_all_or_nothing:
  "(GetAllStatistics e s = ((st, err), s') \<longrightarrow>
      ch s' = ch s \<and>
      ((st = None \<and> (\<exists>c er. err = Some er \<and> last (issued s s') = (c, Error_reply er)))
       \<or> (err = None \<and> (\<exists>info nt h hdr.
             issued s s' =
               [(GetInfo_call, Info_reply info), (GetNetTotals_call, NetTotals_reply nt),
                (GetBestBlockHash_call, Hash_reply h),
                (GetBlockHeader_call h, Header_reply hdr)]
             \<and> st = Some \<lparr>stat_blocks = scast (Blocks info),
                           stat_peers = scast (Connections info),
                           stat_difficulty = Difficulty info,
                           stat_bytesSent = ucast (TotalBytesSent nt),
                           stat_bytesReceived = ucast (TotalBytesRecv nt),
                           stat_latestBlockTs = ucast (Unix (Timestamp hdr))\<rparr>))))
   \<and> (GetAllStatistics e s = ((None, err1), s1) \<and> Collect_metrics e s = (p, s2) \<longrightarrow>
        emitted s s2 = [const_metric up GaugeValue float64_zero])
   \<and> (GetAllStatistics0 e0 s0 = ((st0, err0), s0') \<longrightarrow>
      ch s0' = ch s0 \<and>
      ((st0 = None \<and> (\<exists>c er. err0 = Some er \<and> last (issued s0 s0') = (c, Error_reply er)))
       \<or> (err0 = None \<and> (\<exists>info nt.
             issued s0 s0' =
               [(GetInfo_call, Info_reply info), (GetNetTotals_call, NetTotals_reply nt)]
             \<and> st0 = Some \<lparr>stat0_blocks = scast (Blocks info),
                            stat0_peers = scast (Connections info),
                            stat0_difficulty = Difficulty info,
                            stat0_bytesSent = ucast (TotalBytesSent nt),
                            stat0_bytesReceived = ucast (TotalBytesRecv nt)\<rparr>))))
   \<and> (GetAllStatistics0 e0 s0 = ((None, err2), s3) \<and> Collect_metrics0 e0 s0 = (p0, s4) \<longrightarrow>
        emitted s0 s4 = [const_metric up GaugeValue float64_zero])"
  using snapshot_whole [of e s st err s'] snapshot_whole0 [of e0 s0 st0 err0 s0']
    no_snapshot_no_samples [of e s err1 s1 p s2]
    no_snapshot_no_samples0 [of e0 s0 err2 s3 p0 s4]
  by blast

text \<open>
  In the extended variant three queries succeed and \<^verbatim>\<open>getBlockHeader\<close> is refused: there is
  no snapshot, and the scrape sends \<open>up = 0\<close> alone. In the basic variant both queries
  succeed.
\<close>

theorem snapshot_all_or_nothing_witness:
  "GetAllStatistics (NewExporter (scenario_client 3)) (start 0) =
     ((None, Some (Error ''connection refused'')),
      \<lparr>node = 4,
       rpc_trace = [(GetInfo_call, Info_reply scenario_info),
                    (GetNetTotals_call, NetTotals_reply scenario_netTotals),
                    (GetBestBlockHash_call, Hash_reply scenario_hash),
                    (GetBlockHeader_call scenario_hash,
                     Error_reply (Error ''connection refused''))],
       ch = [], logged = []\<rparr>)
   \<and> emitted (start 0) (snd (Collect_metrics (NewExporter (scenario_client 3)) (start 0)))
       = [const_metric up GaugeValue float64_zero]
   \<and> GetAllStatistics0 (NewExporter (scenario_client 4)) (start 0) =
     ((Some \<lparr>stat0_blocks = 800000, stat0_peers = 8,
             stat0_difficulty = Float64 False 1068 2536400372629504,
             stat0_bytesSent = 1000000, stat0_bytesReceived = 2000000\<rparr>, None),
      \<lparr>node = 2,
       rpc_trace = [(GetInfo_call, Info_reply scenario_info),
                    (GetNetTotals_call, NetTotals_reply scenario_netTotals)],
       ch = [], logged = []\<rparr>)
   \<and> ch (snd (GetAllStatistics0 (NewExporter (scenario_client 4)) (start 0)))
       = ch (start (0::nat))"
proof -
  let ?s4 = "\<lparr>node = 4::nat,
       rpc_trace = [(GetInfo_call, Info_reply scenario_info),
                    (GetNetTotals_call, NetTotals_reply scenario_netTotals),
                    (GetBestBlockHash_call, Hash_reply scenario_hash),
                    (GetBlockHeader_call scenario_hash,
                     Error_reply (Error ''connection refused''))],
       ch = [], logged = []\<rparr>"
  let ?s2 = "\<lparr>node = 2::nat,
       rpc_trace = [(GetInfo_call, Info_reply scenario_info),
                    (GetNetTotals_call, NetTotals_reply scenario_netTotals)],
       ch = [], logged = []\<rparr>"
  let ?st = "\<lparr>stat0_blocks = 800000, stat0_peers = 8,
             stat0_difficulty = Float64 False 1068 2536400372629504,
             stat0_bytesSent = 1000000, stat0_bytesReceived = 2000000\<rparr>"
  let ?c = "Collect_metrics (NewExporter (scenario_client 3)) (start 0)"
  have r4: "GetAllStatistics (NewExporter (scenario_client 3)) (start 0) =
              ((None, Some (Error ''connection refused'')), ?s4)"
    by (simp add: scenario_defs run_defs)
  have r2: "GetAllStatistics0 (NewExporter (scenario_client 4)) (start 0) = ((Some ?st, None), ?s2)"
    by (simp add: scenario_defs run_defs newBtcdStatistics0_def)
  have c: "?c = (fst ?c, snd ?c)" by simp
  note inst = snapshot_all_or_nothing
         [of "NewExporter (scenario_client 3)" "start 0" None
             "Some (Error ''connection refused'')" ?s4
             "Some (Error ''connection refused'')" ?s4 "fst ?c" "snd ?c"
             "NewExporter (scenario_client 4)" "start 0" "Some ?st" None ?s2]
  from inst r4 c have e: "emitted (start 0) (snd ?c) = [const_metric up GaugeValue float64_zero]"
    by blast
  from inst r2 have k: "ch ?s2 = ch (start (0::nat))" by blast
  show ?thesis unfolding r4 r2 snd_conv by (intro conjI refl e k)
qed

subsection \<open>A scrape in which every query succeeds\<close>

lemma distinct_table:
  "distinct [up, blocks, peers, difficulty, bytesSent, bytesReceived, latestBlock]"
  by (simp add: table_defs NewDesc_def BuildFQName_def namespace_def)

lemma const_metric_sel [simp]:
  "metric_desc (const_metric d vt v) = d" "valType (const_metric d vt v) = vt"
  "metric_val (const_metric d vt v) = v" "labelValues (const_metric d vt v) = []"
  by (simp_all add: const_metric_def)

lemma successful_scrape:
  assumes "Collect_metrics e s = (p, s')" "\<forall>ev\<in>set (issued s s'). \<not> is_error (snd ev)"
  shows "(\<exists>info nt h hdr st s1.
      issued s s' =
         [(GetInfo_call, Info_reply info), (GetNetTotals_call, NetTotals_reply nt),
          (GetBestBlockHash_call, Hash_reply h), (GetBlockHeader_call h, Header_reply hdr)]
      \<and> GetAllStatistics e s = ((Some st, None), s1)
      \<and> st = newBtcdStatistics (scast (Blocks info)) (scast (Connections info))
              (Difficulty info) (ucast (TotalBytesSent nt)) (ucast (TotalBytesRecv nt))
              (ucast (Unix (Timestamp hdr)))
      \<and> emitted s s' =
         [const_metric up GaugeValue float64_one,
          const_metric blocks CounterValue (float64_of_int (stat_blocks st)),
          const_metric peers GaugeValue (float64_of_int (stat_peers st)),
          const_metric difficulty GaugeValue (stat_difficulty st),
          const_metric bytesSent CounterValue (float64_of_int (stat_bytesSent st)),
          const_metric bytesReceived GaugeValue (float64_of_int (stat_bytesReceived st)),
          const_metric latestBlock GaugeValue (float64_of_int (stat_latestBlockTs st))])
      \<and> p = None \<and> ch s' = ch s @ emitted s s' \<and> logged s' = logged s
      \<and> distinct (map metric_desc (emitted s s'))"
  using assms(1)
proof (cases rule: Collect_metrics_cases)
  case (failed t c er)
  with assms(2) show ?thesis by simp
next
  case (succeeded info nt h hdr st s1)
  then have em: "emitted s s' =
         [const_metric up GaugeValue float64_one,
          const_metric blocks CounterValue (float64_of_int (stat_blocks st)),
          const_metric peers GaugeValue (float64_of_int (stat_peers st)),
          const_metric difficulty GaugeValue (stat_difficulty st),
          const_metric bytesSent CounterValue (float64_of_int (stat_bytesSent st)),
          const_metric bytesReceived GaugeValue (float64_of_int (stat_bytesReceived st)),
          const_metric latestBlock GaugeValue (float64_of_int (stat_latestBlockTs st))]"
    by (simp add: emitted_def)
  with distinct_table have "distinct (map metric_desc (emitted s s'))" by simp
  moreover from succeeded em have "ch s' = ch s @ emitted s s'" by simp
  ultimately show ?thesis using succeeded(1,2,3,4,6) em by blast
qed

lemma successful_scrape0:
  assumes "Collect_metrics0 e s = (p, s')" "\<forall>ev\<in>set (issued s s'). \<not> is_error (snd ev)"
  shows "(\<exists>info nt st s1.
      issued s s' =
         [(GetInfo_call, Info_reply info), (GetNetTotals_call, NetTotals_reply nt)]
      \<and> GetAllStatistics0 e s = ((Some st, None), s1)
      \<and> st = newBtcdStatistics0 (scast (Blocks info)) (scast (Connections info))
              (Difficulty info) (ucast (TotalBytesSent nt)) (ucast (TotalBytesRecv nt))
      \<and> emitted s s' =
         [const_metric up GaugeValue float64_one,
          const_metric blocks CounterValue (float64_of_int (stat0_blocks st)),
          const_metric peers GaugeValue (float64_of_int (stat0_peers st)),
          const_metric difficulty GaugeValue (stat0_difficulty st),
          const_metric bytesSent CounterValue (float64_of_int (stat0_bytesSent st)),
          const_metric bytesReceived GaugeValue (float64_of_int (stat0_bytesReceived st))])
      \<and> p = None \<and> ch s' = ch s @ emitted s s' \<and> logged s' = logged s
      \<and> distinct (map metric_desc (emitted s s'))"
  using assms(1)
proof (cases rule: Collect_metrics0_cases)
  case (failed t c er)
  with assms(2) show ?thesis by simp
next
  case (succeeded info nt st s1)
  then have em: "emitted s s' =
         [const_metric up GaugeValue float64_one,
          const_metric blocks CounterValue (float64_of_int (stat0_blocks st)),
          const_metric peers GaugeValue (float64_of_int (stat0_peers st)),
          const_metric difficulty GaugeValue (stat0_difficulty st),
          const_metric bytesSent CounterValue (float64_of_int (stat0_bytesSent st)),
          const_metric bytesReceived GaugeValue (float64_of_int (stat0_bytesReceived st))]"
    by (simp add: emitted_def)
  with distinct_table have "distinct (map metric_desc (emitted s s'))" by simp
  moreover from succeeded em have "ch s' = ch s @ emitted s s'" by simp
  ultimately show ?thesis using succeeded(1,2,3,4,6) em by blast
qed

text \<open>
  C2. Whenever no query of a scrape fails, in either variant, \<^verbatim>\<open>Collect\<close> returns without a
  panic and the samples it sent are, in this order, \<open>up\<close> with value 1 and one sample for
  each further descriptor of the table, all descriptors distinct. The value of a sample is the
  snapshot's field: \<^verbatim>\<open>difficulty\<close> as it is, an integer field converted to \<^verbatim>\<open>float64\<close>. The
  snapshot is the one \<^verbatim>\<open>GetAllStatistics\<close> builds from the replies of this scrape. The conversion
  of an integer of magnitude below \<open>2 ^ 53\<close> denotes that integer.
\<close>

theorem successful_scrape_emits_snapshot:
  "(Collect_metrics e s = (p, s') \<and> (\<forall>ev\<in>set (issued s s'). \<not> is_error (snd ev)) \<longrightarrow>
     (\<exists>info nt h hdr st s1.
        issued s s' =
          [(GetInfo_call, Info_reply info), (GetNetTotals_call, NetTotals_reply nt),
           (GetBestBlockHash_call, Hash_reply h), (GetBlockHeader_call h, Header_reply hdr)]
        \<and> GetAllStatistics e s = ((Some st, None), s1)
        \<and> st = newBtcdStatistics (scast (Blocks info)) (scast (Connections info))
                (Difficulty info) (ucast (TotalBytesSent nt)) (ucast (TotalBytesRecv nt))
                (ucast (Unix (Timestamp hdr)))
        \<and> emitted s s' =
            [const_metric up GaugeValue float64_one,
             const_metric blocks CounterValue (float64_of_int (stat_blocks st)),
             const_metric peers GaugeValue (float64_of_int (stat_peers st)),
             const_metric difficulty GaugeValue (stat_difficulty st),
             const_metric bytesSent CounterValue (float64_of_int (stat_bytesSent st)),
             const_metric bytesReceived GaugeValue (float64_of_int (stat_bytesReceived st)),
             const_metric latestBlock GaugeValue (float64_of_int (stat_latestBlockTs st))])
     \<and> p = None \<and> ch s' = ch s @ emitted s s' \<and> logged s' = logged s
     \<and> distinct (map metric_desc (emitted s s')))
   \<and> (Collect_metrics0 e0 s0 = (p0, s0') \<and> (\<forall>ev\<in>set (issued s0 s0'). \<not> is_error (snd ev)) \<longrightarrow>
     (\<exists>info nt st s1.
        issued s0 s0' =
          [(GetInfo_call, Info_reply info), (GetNetTotals_call, NetTotals_reply nt)]
        \<and> GetAllStatistics0 e0 s0 = ((Some st, None), s1)
        \<and> st = newBtcdStatistics0 (scast (Blocks info)) (scast (Connections info))
                (Difficulty info) (ucast (TotalBytesSent nt)) (ucast (TotalBytesRecv nt))
        \<and> emitted s0 s0' =
            [const_metric up GaugeValue float64_one,
             const_metric blocks CounterValue (float64_of_int (stat0_blocks st)),
             const_metric peers GaugeValue (float64_of_int (stat0_peers st)),
             const_metric difficulty GaugeValue (stat0_difficulty st),
             const_metric bytesSent CounterValue (float64_of_int (stat0_bytesSent st)),
             const_metric bytesReceived GaugeValue (float64_of_int (stat0_bytesReceived st))])
     \<and> p0 = None \<and> ch s0' = ch s0 @ emitted s0 s0' \<and> logged s0' = logged s0
     \<and> distinct (map metric_desc (emitted s0 s0')))
   \<and> float64_val float64_one = Some 1
   \<and> (\<forall>x. \<bar>sint x\<bar> < 2 ^ 53 \<longrightarrow> float64_val (float64_of_int x) = Some (of_int (sint x)))"
  using successful_scrape [of e s p s'] successful_scrape0 [of e0 s0 p0 s0']
    float64_val_consts(2) float64_of_int_exact
  by blast

text \<open>The values of Scenarios A and C, and the two variants run on them.\<close>

lemma scenario_values:
  "float64_val (float64_of_int 800000) = Some 800000"
  "float64_val (float64_of_int 8) = Some 8"
  "float64_val (Float64 False 1068 2536400372629504) = Some 55000000000000"
  "float64_val (float64_of_int 1000000) = Some 1000000"
  "float64_val (float64_of_int 2000000) = Some 2000000"
  "float64_val (float64_of_int 1700000000) = Some 1700000000"
  by (simp_all add: float64_of_int_def float64_val_def bit_length.simps Let_def)

lemma scenario_A:
  "Collect_metrics (NewExporter (scenario_client 4)) (start 0) =
     (None,
      \<lparr>node = 4,
       rpc_trace = [(GetInfo_call, Info_reply scenario_info),
                    (GetNetTotals_call, NetTotals_reply scenario_netTotals),
                    (GetBestBlockHash_call, Hash_reply scenario_hash),
                    (GetBlockHeader_call scenario_hash, Header_reply scenario_header)],
       ch = [const_metric up GaugeValue float64_one,
             const_metric blocks CounterValue (float64_of_int 800000),
             const_metric peers GaugeValue (float64_of_int 8),
             const_metric difficulty GaugeValue (Float64 False 1068 2536400372629504),
             const_metric bytesSent CounterValue (float64_of_int 1000000),
             const_metric bytesReceived GaugeValue (float64_of_int 2000000),
             const_metric latestBlock GaugeValue (float64_of_int 1700000000)],
       logged = []\<rparr>)"
  by (simp add: scenario_defs run_defs newBtcdStatistics_def)

lemma scenario_A0:
  "Collect_metrics0 (NewExporter (scenario_client 4)) (start 0) =
     (None,
      \<lparr>node = 2,
       rpc_trace = [(GetInfo_call, Info_reply scenario_info),
                    (GetNetTotals_call, NetTotals_reply scenario_netTotals)],
       ch = [const_metric up GaugeValue float64_one,
             const_metric blocks CounterValue (float64_of_int 800000),
             const_metric peers GaugeValue (float64_of_int 8),
             const_metric difficulty GaugeValue (Float64 False 1068 2536400372629504),
             const_metric bytesSent CounterValue (float64_of_int 1000000),
             const_metric bytesReceived GaugeValue (float64_of_int 2000000)],
       logged = []\<rparr>)"
  by (simp add: scenario_defs run_defs newBtcdStatistics0_def)


lemma scenario_all_answered:
  "\<forall>ev\<in>set (issued (start 0)
       (snd (Collect_metrics (NewExporter (scenario_client 4)) (start 0)))).
     \<not> is_error (snd ev)"
  "\<forall>ev\<in>set (issued (start 0)
       (snd (Collect_metrics0 (NewExporter (scenario_client 4)) (start 0)))).
     \<not> is_error (snd ev)"
  unfolding scenario_A scenario_A0 snd_conv by (simp_all add: issued_def start_def)

text \<open>Scenario A, in both variants (the extended variant adds the sample of Scenario C).\<close>

theorem successful_scrape_emits_snapshot_witness:
  "fst (Collect_metrics (NewExporter (scenario_client 4)) (start 0)) = None
   \<and> issued (start 0) (snd (Collect_metrics (NewExporter (scenario_client 4)) (start 0))) =
       [(GetInfo_call, Info_reply scenario_info),
        (GetNetTotals_call, NetTotals_reply scenario_netTotals),
        (GetBestBlockHash_call, Hash_reply scenario_hash),
        (GetBlockHeader_call scenario_hash, Header_reply scenario_header)]
   \<and> map (\<lambda>m. (fqName (metric_desc m), float64_val (metric_val m)))
        (emitted (start 0) (snd (Collect_metrics (NewExporter (scenario_client 4)) (start 0))))
     = [(''btcd_up'', Some 1), (''btcd_blocks_total'', Some 800000), (''btcd_peers'', Some 8),
        (''btcd_difficulty'', Some 55000000000000), (''btcd_sent_bytes'', Some 1000000),
        (''btcd_received_bytes'', Some 2000000),
        (''btcd_latest_block_timestamp'', Some 1700000000)]
   \<and> fst (Collect_metrics0 (NewExporter (scenario_client 4)) (start 0)) = None
   \<and> issued (start 0) (snd (Collect_metrics0 (NewExporter (scenario_client 4)) (start 0))) =
       [(GetInfo_call, Info_reply scenario_info),
        (GetNetTotals_call, NetTotals_reply scenario_netTotals)]
   \<and> map (\<lambda>m. (fqName (metric_desc m), float64_val (metric_val m)))
        (emitted (start 0) (snd (Collect_metrics0 (NewExporter (scenario_client 4)) (start 0))))
     = [(''btcd_up'', Some 1), (''btcd_blocks_total'', Some 800000), (''btcd_peers'', Some 8),
        (''btcd_difficulty'', Some 55000000000000), (''btcd_sent_bytes'', Some 1000000),
        (''btcd_received_bytes'', Some 2000000)]"
proof -
  let ?c = "Collect_metrics (NewExporter (scenario_client 4)) (start 0)"
  let ?b = "Collect_metrics0 (NewExporter (scenario_client 4)) (start 0)"
  have c: "?c = (fst ?c, snd ?c)" "?b = (fst ?b, snd ?b)" by simp_all
  note inst = successful_scrape_emits_snapshot
         [of "NewExporter (scenario_client 4)" "start 0" "fst ?c" "snd ?c"
             "NewExporter (scenario_client 4)" "start 0" "fst ?b" "snd ?b"]
  from inst c scenario_all_answered have p: "fst ?c = None" "fst ?b = None" by blast+
  have i: "issued (start 0) (snd ?c) =
       [(GetInfo_call, Info_reply scenario_info),
        (GetNetTotals_call, NetTotals_reply scenario_netTotals),
        (GetBestBlockHash_call, Hash_reply scenario_hash),
        (GetBlockHeader_call scenario_hash, Header_reply scenario_header)]"
    "issued (start 0) (snd ?b) =
       [(GetInfo_call, Info_reply scenario_info),
        (GetNetTotals_call, NetTotals_reply scenario_netTotals)]"
    unfolding scenario_A scenario_A0 snd_conv by (simp_all add: issued_def start_def)
  have v: "map (\<lambda>m. (fqName (metric_desc m), float64_val (metric_val m)))
        (emitted (start 0) (snd ?c))
     = [(''btcd_up'', Some 1), (''btcd_blocks_total'', Some 800000), (''btcd_peers'', Some 8),
        (''btcd_difficulty'', Some 55000000000000), (''btcd_sent_bytes'', Some 1000000),
        (''btcd_received_bytes'', Some 2000000),
        (''btcd_latest_block_timestamp'', Some 1700000000)]"
    "map (\<lambda>m. (fqName (metric_desc m), float64_val (metric_val m)))
        (emitted (start 0) (snd ?b))
     = [(''btcd_up'', Some 1), (''btcd_blocks_total'', Some 800000), (''btcd_peers'', Some 8),
        (''btcd_difficulty'', Some 55000000000000), (''btcd_sent_bytes'', Some 1000000),
        (''btcd_received_bytes'', Some 2000000)]"
    unfolding scenario_A scenario_A0 snd_conv
    by (simp_all add: emitted_def start_def fqName_table scenario_values float64_val_consts)
  show ?thesis by (intro conjI p i v)
qed

subsection \<open>The value kinds\<close>

lemma kinds_of_success:
  assumes "Collect_metrics e s = (p, s')" "\<forall>ev\<in>set (issued s s'). \<not> is_error (snd ev)"
  shows "map (\<lambda>m. (fqName (metric_desc m), valType m)) (emitted s s') =
      [(''btcd_up'', GaugeValue), (''btcd_blocks_total'', CounterValue),
       (''btcd_peers'', GaugeValue), (''btcd_difficulty'', GaugeValue),
       (''btcd_sent_bytes'', CounterValue), (''btcd_received_bytes'', GaugeValue),
       (''btcd_latest_block_timestamp'', GaugeValue)]"
  using successful_scrape [OF assms] by (auto simp: fqName_table)

lemma kinds_of_success0:
  assumes "Collect_metrics0 e s = (p, s')" "\<forall>ev\<in>set (issued s s'). \<not> is_error (snd ev)"
  shows "map (\<lambda>m. (fqName (metric_desc m), valType m)) (emitted s s') =
      [(''btcd_up'', GaugeValue), (''btcd_blocks_total'', CounterValue),
       (''btcd_peers'', GaugeValue), (''btcd_difficulty'', GaugeValue),
       (''btcd_sent_bytes'', CounterValue), (''btcd_received_bytes'', GaugeValue)]"
  using successful_scrape0 [OF assms] by (auto simp: fqName_table)

text \<open>
  C5. On a successful scrape, in either variant, the samples carry the declared kinds:
  \<open>up\<close> gauge, \<open>blocks_total\<close> counter, \<open>peers\<close> gauge, \<open>difficulty\<close> gauge,
  \<open>sent_bytes\<close> counter, \<open>received_bytes\<close> gauge, and in the extended variant
  \<open>latest_block_timestamp\<close> gauge.
\<close>

theorem declared_value_kinds:
  "(Collect_metrics e s = (p, s') \<and> (\<forall>ev\<in>set (issued s s'). \<not> is_error (snd ev)) \<longrightarrow>
      map (\<lambda>m. (fqName (metric_desc m), valType m)) (emitted s s') =
        [(''btcd_up'', GaugeValue), (''btcd_blocks_total'', CounterValue),
         (''btcd_peers'', GaugeValue), (''btcd_difficulty'', GaugeValue),
         (''btcd_sent_bytes'', CounterValue), (''btcd_received_bytes'', GaugeValue),
         (''btcd_latest_block_timestamp'', GaugeValue)])
   \<and> (Collect_metrics0 e0 s0 = (p0, s0') \<and> (\<forall>ev\<in>set (issued s0 s0'). \<not> is_error (snd ev)) \<longrightarrow>
      map (\<lambda>m. (fqName (metric_desc m), valType m)) (emitted s0 s0') =
        [(''btcd_up'', GaugeValue), (''btcd_blocks_total'', CounterValue),
         (''btcd_peers'', GaugeValue), (''btcd_difficulty'', GaugeValue),
         (''btcd_sent_bytes'', CounterValue), (''btcd_received_bytes'', GaugeValue)])"
  using kinds_of_success [of e s p s'] kinds_of_success0 [of e0 s0 p0 s0'] by blast

theorem declared_value_kinds_witness:
  "map (\<lambda>m. (fqName (metric_desc m), valType m))
     (emitted (start 0) (snd (Collect_metrics (NewExporter (scenario_client 4)) (start 0)))) =
        [(''btcd_up'', GaugeValue), (''btcd_blocks_total'', CounterValue),
         (''btcd_peers'', GaugeValue), (''btcd_difficulty'', GaugeValue),
         (''btcd_sent_bytes'', CounterValue), (''btcd_received_bytes'', GaugeValue),
         (''btcd_latest_block_timestamp'', GaugeValue)]
   \<and> map (\<lambda>m. (fqName (metric_desc m), valType m))
     (emitted (start 0) (snd (Collect_metrics0 (NewExporter (scenario_client 4)) (start 0)))) =
        [(''btcd_up'', GaugeValue), (''btcd_blocks_total'', CounterValue),
         (''btcd_peers'', GaugeValue), (''btcd_difficulty'', GaugeValue),
         (''btcd_sent_bytes'', CounterValue), (''btcd_received_bytes'', GaugeValue)]
   \<and> length (ch (snd (Collect_metrics (NewExporter (scenario_client 4)) (start 0)))) = 7
   \<and> length (ch (snd (Collect_metrics0 (NewExporter (scenario_client 4)) (start 0)))) = 6"
proof -
  let ?c = "Collect_metrics (NewExporter (scenario_client 4)) (start 0)"
  let ?b = "Collect_metrics0 (NewExporter (scenario_client 4)) (start 0)"
  have c: "?c = (fst ?c, snd ?c)" "?b = (fst ?b, snd ?b)" by simp_all
  have l: "length (ch (snd ?c)) = 7" "length (ch (snd ?b)) = 6"
    unfolding scenario_A scenario_A0 snd_conv by simp_all
  from declared_value_kinds
         [of "NewExporter (scenario_client 4)" "start 0" "fst ?c" "snd ?c"
             "NewExporter (scenario_client 4)" "start 0" "fst ?b" "snd ?b"]
       c scenario_all_answered l
  show ?thesis by blast
qed

subsection \<open>The timestamp of the best block\<close>

lemma latest_block_sample:
  assumes "Collect_metrics e s = (p, s')" "\<forall>ev\<in>set (issued s s'). \<not> is_error (snd ev)"
  shows "\<exists>h hdr. length (issued s s') = 4
      \<and> issued s s' ! 2 = (GetBestBlockHash_call, Hash_reply h)
      \<and> issued s s' ! 3 = (GetBlockHeader_call h, Header_reply hdr)
      \<and> filter (\<lambda>m. metric_desc m = latestBlock) (emitted s s') =
           [const_metric latestBlock GaugeValue (float64_of_int (ucast (Unix (Timestamp hdr))))]
      \<and> (\<bar>sint (Unix (Timestamp hdr))\<bar> < 2 ^ 53 \<longrightarrow>
           float64_val (float64_of_int (ucast (Unix (Timestamp hdr))))
             = Some (of_int (sint (Unix (Timestamp hdr)))))"
proof -
  from successful_scrape [OF assms] obtain info nt h hdr st where
    i: "issued s s' =
         [(GetInfo_call, Info_reply info), (GetNetTotals_call, NetTotals_reply nt),
          (GetBestBlockHash_call, Hash_reply h), (GetBlockHeader_call h, Header_reply hdr)]"
    and st: "st = newBtcdStatistics (scast (Blocks info)) (scast (Connections info))
              (Difficulty info) (ucast (TotalBytesSent nt)) (ucast (TotalBytesRecv nt))
              (ucast (Unix (Timestamp hdr)))"
    and em: "emitted s s' =
         [const_metric up GaugeValue float64_one,
          const_metric blocks CounterValue (float64_of_int (stat_blocks st)),
          const_metric peers GaugeValue (float64_of_int (stat_peers st)),
          const_metric difficulty GaugeValue (stat_difficulty st),
          const_metric bytesSent CounterValue (float64_of_int (stat_bytesSent st)),
          const_metric bytesReceived GaugeValue (float64_of_int (stat_bytesReceived st)),
          const_metric latestBlock GaugeValue (float64_of_int (stat_latestBlockTs st))]"
    by blast
  from distinct_table have ne: "up \<noteq> latestBlock" "blocks \<noteq> latestBlock"
    "peers \<noteq> latestBlock" "difficulty \<noteq> latestBlock" "bytesSent \<noteq> latestBlock"
    "bytesReceived \<noteq> latestBlock"
    by auto
  have f: "filter (\<lambda>m. metric_desc m = latestBlock) (emitted s s') =
           [const_metric latestBlock GaugeValue (float64_of_int (ucast (Unix (Timestamp hdr))))]"
    by (simp add: em st ne)
  have x: "\<bar>sint (Unix (Timestamp hdr))\<bar> < 2 ^ 53 \<longrightarrow>
           float64_val (float64_of_int (ucast (Unix (Timestamp hdr))))
             = Some (of_int (sint (Unix (Timestamp hdr))))"
    using float64_of_int_exact [of "Unix (Timestamp hdr)"] by simp
  from i f x show ?thesis by (intro exI [of _ h] exI [of _ hdr]) simp
qed

text \<open>
  C6. In the extended variant, when all four queries succeed, the fourth query is
  \<^verbatim>\<open>getBlockHeader\<close> on the very hash the third query, \<^verbatim>\<open>getBestBlockHash\<close>, returned, and
  the scrape sends exactly one sample for \<open>latest_block_timestamp\<close>, a gauge whose value is the
  conversion to \<^verbatim>\<open>float64\<close> of the Unix time of the header returned; it denotes that time
  when its magnitude is below \<open>2 ^ 53\<close>.
\<close>

theorem latest_block_timestamp_of_best_block:
  "Collect_metrics e s = (p, s') \<and> (\<forall>ev\<in>set (issued s s'). \<not> is_error (snd ev)) \<longrightarrow>
     (\<exists>h hdr. length (issued s s') = 4
      \<and> issued s s' ! 2 = (GetBestBlockHash_call, Hash_reply h)
      \<and> issued s s' ! 3 = (GetBlockHeader_call h, Header_reply hdr)
      \<and> filter (\<lambda>m. metric_desc m = latestBlock) (emitted s s') =
           [const_metric latestBlock GaugeValue (float64_of_int (ucast (Unix (Timestamp hdr))))]
      \<and> (\<bar>sint (Unix (Timestamp hdr))\<bar> < 2 ^ 53 \<longrightarrow>
           float64_val (float64_of_int (ucast (Unix (Timestamp hdr))))
             = Some (of_int (sint (Unix (Timestamp hdr))))))"
  using latest_block_sample [of e s p s'] by blast

text \<open>Scenario C: the header's time is 1700000000.\<close>

theorem latest_block_timestamp_of_best_block_witness:
  "issued (start 0) (snd (Collect_metrics (NewExporter (scenario_client 4)) (start 0))) ! 2
     = (GetBestBlockHash_call, Hash_reply scenario_hash)
   \<and> issued (start 0) (snd (Collect_metrics (NewExporter (scenario_client 4)) (start 0))) ! 3
     = (GetBlockHeader_call scenario_hash, Header_reply \<lparr>Timestamp = Time 1700000000\<rparr>)
   \<and> map (\<lambda>m. (fqName (metric_desc m), float64_val (metric_val m)))
       (filter (\<lambda>m. metric_desc m = latestBlock)
         (emitted (start 0) (snd (Collect_metrics (NewExporter (scenario_client 4)) (start 0)))))
     = [(''btcd_latest_block_timestamp'', Some 1700000000)]"
proof -
  let ?c = "Collect_metrics (NewExporter (scenario_client 4)) (start 0)"
  have c: "?c = (fst ?c, snd ?c)" by simp
  have i: "issued (start 0) (snd ?c) ! 2 = (GetBestBlockHash_call, Hash_reply scenario_hash)"
    "issued (start 0) (snd ?c) ! 3
       = (GetBlockHeader_call scenario_hash, Header_reply \<lparr>Timestamp = Time 1700000000\<rparr>)"
    unfolding scenario_A snd_conv by (simp_all add: issued_def start_def scenario_header_def)
  from latest_block_timestamp_of_best_block
         [of "NewExporter (scenario_client 4)" "start 0" "fst ?c" "snd ?c"]
       c scenario_all_answered(1)
  obtain h hdr where
    "issued (start 0) (snd ?c) ! 2 = (GetBestBlockHash_call, Hash_reply h)"
    "issued (start 0) (snd ?c) ! 3 = (GetBlockHeader_call h, Header_reply hdr)"
    and f: "filter (\<lambda>m. metric_desc m = latestBlock) (emitted (start 0) (snd ?c)) =
           [const_metric latestBlock GaugeValue (float64_of_int (ucast (Unix (Timestamp hdr))))]"
    by blast
  with i have "hdr = \<lparr>Timestamp = Time 1700000000\<rparr>" by simp
  with f have "map (\<lambda>m. (fqName (metric_desc m), float64_val (metric_val m)))
       (filter (\<lambda>m. metric_desc m = latestBlock) (emitted (start 0) (snd ?c)))
     = [(''btcd_latest_block_timestamp'', Some 1700000000)]"
    by (simp add: fqName_table scenario_values)
  with i show ?thesis by (intro conjI)
qed

subsection \<open>The names of the metrics\<close>

lemma names_of_success:
  assumes "Collect_metrics e s = (p, s')" "\<forall>ev\<in>set (issued s s'). \<not> is_error (snd ev)"
  shows "map (\<lambda>m. fqName (metric_desc m)) (emitted s s') =
      [''btcd_up'', ''btcd_blocks_total'', ''btcd_peers'', ''btcd_difficulty'',
       ''btcd_sent_bytes'', ''btcd_received_bytes'', ''btcd_latest_block_timestamp'']"
  using successful_scrape [OF assms] by (auto simp: fqName_table)

lemma names_of_success0:
  assumes "Collect_metrics0 e s = (p, s')" "\<forall>ev\<in>set (issued s s'). \<not> is_error (snd ev)"
  shows "map (\<lambda>m. fqName (metric_desc m)) (emitted s s') =
      [''btcd_up'', ''btcd_blocks_total'', ''btcd_peers'', ''btcd_difficulty'',
       ''btcd_sent_bytes'', ''btcd_received_bytes'']"
  using successful_scrape0 [OF assms] by (auto simp: fqName_table)

text \<open>
  C9. Any two scrapes of the same variant in which no query fails send samples with the same
  set of names, the names of the table; every descriptor's name starts with the namespace and
  an underscore.
\<close>

theorem metric_names_constant:
  "(Collect_metrics e1 s1 = (p1, s1') \<and> (\<forall>ev\<in>set (issued s1 s1'). \<not> is_error (snd ev))
    \<and> Collect_metrics e2 s2 = (p2, s2') \<and> (\<forall>ev\<in>set (issued s2 s2'). \<not> is_error (snd ev)) \<longrightarrow>
      set (map (\<lambda>m. fqName (metric_desc m)) (emitted s1 s1'))
        = set (map (\<lambda>m. fqName (metric_desc m)) (emitted s2 s2'))
      \<and> set (map (\<lambda>m. fqName (metric_desc m)) (emitted s1 s1')) =
          {''btcd_up'', ''btcd_blocks_total'', ''btcd_peers'', ''btcd_difficulty'',
           ''btcd_sent_bytes'', ''btcd_received_bytes'', ''btcd_latest_block_timestamp''})
   \<and> (Collect_metrics0 e3 s3 = (p3, s3') \<and> (\<forall>ev\<in>set (issued s3 s3'). \<not> is_error (snd ev))
    \<and> Collect_metrics0 e4 s4 = (p4, s4') \<and> (\<forall>ev\<in>set (issued s4 s4'). \<not> is_error (snd ev)) \<longrightarrow>
      set (map (\<lambda>m. fqName (metric_desc m)) (emitted s3 s3'))
        = set (map (\<lambda>m. fqName (metric_desc m)) (emitted s4 s4'))
      \<and> set (map (\<lambda>m. fqName (metric_desc m)) (emitted s3 s3')) =
          {''btcd_up'', ''btcd_blocks_total'', ''btcd_peers'', ''btcd_difficulty'',
           ''btcd_sent_bytes'', ''btcd_received_bytes''})
   \<and> (\<forall>d\<in>set [up, blocks, peers, difficulty, bytesSent, bytesReceived, latestBlock].
         take (length namespace + 1) (fqName d) = namespace @ ''_'')"
proof -
  have a: "Collect_metrics e1 s1 = (p1, s1') \<and> (\<forall>ev\<in>set (issued s1 s1'). \<not> is_error (snd ev))
    \<and> Collect_metrics e2 s2 = (p2, s2') \<and> (\<forall>ev\<in>set (issued s2 s2'). \<not> is_error (snd ev)) \<longrightarrow>
      set (map (\<lambda>m. fqName (metric_desc m)) (emitted s1 s1'))
        = set (map (\<lambda>m. fqName (metric_desc m)) (emitted s2 s2'))
      \<and> set (map (\<lambda>m. fqName (metric_desc m)) (emitted s1 s1')) =
          {''btcd_up'', ''btcd_blocks_total'', ''btcd_peers'', ''btcd_difficulty'',
           ''btcd_sent_bytes'', ''btcd_received_bytes'', ''btcd_latest_block_timestamp''}"
  proof (rule impI, elim conjE)
    assume h: "Collect_metrics e1 s1 = (p1, s1')" "\<forall>ev\<in>set (issued s1 s1'). \<not> is_error (snd ev)"
      "Collect_metrics e2 s2 = (p2, s2')" "\<forall>ev\<in>set (issued s2 s2'). \<not> is_error (snd ev)"
    show "set (map (\<lambda>m. fqName (metric_desc m)) (emitted s1 s1'))
        = set (map (\<lambda>m. fqName (metric_desc m)) (emitted s2 s2'))
      \<and> set (map (\<lambda>m. fqName (metric_desc m)) (emitted s1 s1')) =
          {''btcd_up'', ''btcd_blocks_total'', ''btcd_peers'', ''btcd_difficulty'',
           ''btcd_sent_bytes'', ''btcd_received_bytes'', ''btcd_latest_block_timestamp''}"
      unfolding names_of_success [OF h(1,2)] names_of_success [OF h(3,4)]
      by (simp only: list.set simp_thms)
  qed
  have b: "Collect_metrics0 e3 s3 = (p3, s3') \<and> (\<forall>ev\<in>set (issued s3 s3'). \<not> is_error (snd ev))
    \<and> Collect_metrics0 e4 s4 = (p4, s4') \<and> (\<forall>ev\<in>set (issued s4 s4'). \<not> is_error (snd ev)) \<longrightarrow>
      set (map (\<lambda>m. fqName (metric_desc m)) (emitted s3 s3'))
        = set (map (\<lambda>m. fqName (metric_desc m)) (emitted s4 s4'))
      \<and> set (map (\<lambda>m. fqName (metric_desc m)) (emitted s3 s3')) =
          {''btcd_up'', ''btcd_blocks_total'', ''btcd_peers'', ''btcd_difficulty'',
           ''btcd_sent_bytes'', ''btcd_received_bytes''}"
  proof (rule impI, elim conjE)
    assume h: "Collect_metrics0 e3 s3 = (p3, s3')" "\<forall>ev\<in>set (issued s3 s3'). \<not> is_error (snd ev)"
      "Collect_metrics0 e4 s4 = (p4, s4')" "\<forall>ev\<in>set (issued s4 s4'). \<not> is_error (snd ev)"
    show "set (map (\<lambda>m. fqName (metric_desc m)) (emitted s3 s3'))
        = set (map (\<lambda>m. fqName (metric_desc m)) (emitted s4 s4'))
      \<and> set (map (\<lambda>m. fqName (metric_desc m)) (emitted s3 s3')) =
          {''btcd_up'', ''btcd_blocks_total'', ''btcd_peers'', ''btcd_difficulty'',
           ''btcd_sent_bytes'', ''btcd_received_bytes''}"
      unfolding names_of_success0 [OF h(1,2)] names_of_success0 [OF h(3,4)]
      by (simp only: list.set simp_thms)
  qed
  have c: "\<forall>d\<in>set [up, blocks, peers, difficulty, bytesSent, bytesReceived, latestBlock].
         take (length namespace + 1) (fqName d) = namespace @ ''_''"
    by (simp add: fqName_table namespace_def)
  show ?thesis by (intro conjI a b c)
qed

text \<open>
  Two scrapes one block apart, from different states of the node: the names agree, the values
  do not.
\<close>

lemma scenario_later:
  "Collect_metrics (NewExporter (later_client 9)) (start 5) =
     (None,
      \<lparr>node = 9,
       rpc_trace = [(GetInfo_call, Info_reply later_info),
                    (GetNetTotals_call, NetTotals_reply scenario_netTotals),
                    (GetBestBlockHash_call, Hash_reply scenario_hash),
                    (GetBlockHeader_call scenario_hash, Header_reply scenario_header)],
       ch = [const_metric up GaugeValue float64_one,
             const_metric blocks CounterValue (float64_of_int 800001),
             const_metric peers GaugeValue (float64_of_int 9),
             const_metric difficulty GaugeValue (Float64 False 1068 2536400372629504),
             const_metric bytesSent CounterValue (float64_of_int 1000000),
             const_metric bytesReceived GaugeValue (float64_of_int 2000000),
             const_metric latestBlock GaugeValue (float64_of_int 1700000000)],
       logged = []\<rparr>)"
  by (simp add: later_client_def later_info_def scenario_defs run_defs newBtcdStatistics_def)

lemma scenario_later0:
  "Collect_metrics0 (NewExporter (later_client 9)) (start 5) =
     (None,
      \<lparr>node = 7,
       rpc_trace = [(GetInfo_call, Info_reply later_info),
                    (GetNetTotals_call, NetTotals_reply scenario_netTotals)],
       ch = [const_metric up GaugeValue float64_one,
             const_metric blocks CounterValue (float64_of_int 800001),
             const_metric peers GaugeValue (float64_of_int 9),
             const_metric difficulty GaugeValue (Float64 False 1068 2536400372629504),
             const_metric bytesSent CounterValue (float64_of_int 1000000),
             const_metric bytesReceived GaugeValue (float64_of_int 2000000)],
       logged = []\<rparr>)"
  by (simp add: later_client_def later_info_def scenario_defs run_defs newBtcdStatistics0_def)

lemma later_all_answered:
  "\<forall>ev\<in>set (issued (start 5)
       (snd (Collect_metrics (NewExporter (later_client 9)) (start 5)))).
     \<not> is_error (snd ev)"
  "\<forall>ev\<in>set (issued (start 5)
       (snd (Collect_metrics0 (NewExporter (later_client 9)) (start 5)))).
     \<not> is_error (snd ev)"
  unfolding scenario_later scenario_later0 snd_conv by (simp_all add: issued_def start_def)

lemma later_values_differ:
  "float64_of_int 800000 \<noteq> float64_of_int 800001"
  by (simp add: float64_of_int_def bit_length.simps Let_def)

theorem metric_names_constant_witness:
  "set (map (\<lambda>m. fqName (metric_desc m))
         (emitted (start 0) (snd (Collect_metrics (NewExporter (scenario_client 4)) (start 0)))))
     = set (map (\<lambda>m. fqName (metric_desc m))
         (emitted (start 5) (snd (Collect_metrics (NewExporter (later_client 9)) (start 5)))))
   \<and> map metric_val
         (emitted (start 0) (snd (Collect_metrics (NewExporter (scenario_client 4)) (start 0))))
     \<noteq> map metric_val
         (emitted (start 5) (snd (Collect_metrics (NewExporter (later_client 9)) (start 5))))
   \<and> set (map (\<lambda>m. fqName (metric_desc m))
         (emitted (start 0) (snd (Collect_metrics0 (NewExporter (scenario_client 4)) (start 0)))))
     = set (map (\<lambda>m. fqName (metric_desc m))
         (emitted (start 5) (snd (Collect_metrics0 (NewExporter (later_client 9)) (start 5)))))
   \<and> map metric_val
         (emitted (start 0) (snd (Collect_metrics0 (NewExporter (scenario_client 4)) (start 0))))
     \<noteq> map metric_val
         (emitted (start 5) (snd (Collect_metrics0 (NewExporter (later_client 9)) (start 5))))
   \<and> take (length namespace + 1) (fqName latestBlock) = ''btcd_''"
proof -
  let ?a = "Collect_metrics (NewExporter (scenario_client 4)) (start 0)"
  let ?b = "Collect_metrics (NewExporter (later_client 9)) (start 5)"
  let ?c = "Collect_metrics0 (NewExporter (scenario_client 4)) (start 0)"
  let ?d = "Collect_metrics0 (NewExporter (later_client 9)) (start 5)"
  have p: "?a = (fst ?a, snd ?a)" "?b = (fst ?b, snd ?b)" "?c = (fst ?c, snd ?c)"
    "?d = (fst ?d, snd ?d)" by simp_all
  note inst = metric_names_constant
         [of "NewExporter (scenario_client 4)" "start 0" "fst ?a" "snd ?a"
             "NewExporter (later_client 9)" "start 5" "fst ?b" "snd ?b"
             "NewExporter (scenario_client 4)" "start 0" "fst ?c" "snd ?c"
             "NewExporter (later_client 9)" "start 5" "fst ?d" "snd ?d"]
  have n: "set (map (\<lambda>m. fqName (metric_desc m)) (emitted (start 0) (snd ?a)))
     = set (map (\<lambda>m. fqName (metric_desc m)) (emitted (start 5) (snd ?b)))"
    by (rule inst [THEN conjunct1, THEN mp, THEN conjunct1])
       (intro conjI p(1,2) scenario_all_answered(1) later_all_answered(1))
  have n0: "set (map (\<lambda>m. fqName (metric_desc m)) (emitted (start 0) (snd ?c)))
     = set (map (\<lambda>m. fqName (metric_desc m)) (emitted (start 5) (snd ?d)))"
    by (rule inst [THEN conjunct2, THEN conjunct1, THEN mp, THEN conjunct1])
       (intro conjI p(3,4) scenario_all_answered(2) later_all_answered(2))
  have "take (length namespace + 1) (fqName latestBlock) = namespace @ ''_''"
    by (rule inst [THEN conjunct2, THEN conjunct2, THEN bspec]) simp
  then have pre: "take (length namespace + 1) (fqName latestBlock) = ''btcd_''"
    by (simp add: namespace_def)
  have v: "map metric_val (emitted (start 0) (snd ?a))
             \<noteq> map metric_val (emitted (start 5) (snd ?b))"
    "map metric_val (emitted (start 0) (snd ?c))
             \<noteq> map metric_val (emitted (start 5) (snd ?d))"
    unfolding scenario_A scenario_A0 scenario_later scenario_later0 snd_conv
    by (simp_all add: emitted_def start_def later_values_differ)
  show ?thesis by (intro conjI n v n0 pre)
qed

subsection \<open>\<^verbatim>\<open>Describe\<close> and \<^verbatim>\<open>Collect\<close> agree\<close>

lemma descs_of_success:
  assumes "Collect_metrics e s = (p, s')" "\<forall>ev\<in>set (issued s s'). \<not> is_error (snd ev)"
  shows "map metric_desc (emitted s s') = Describe e []"
  using successful_scrape [OF assms] by (auto simp: Describe_def)

lemma descs_of_success0:
  assumes "Collect_metrics0 e s = (p, s')" "\<forall>ev\<in>set (issued s s'). \<not> is_error (snd ev)"
  shows "map metric_desc (emitted s s') = Describe0 e []"
  using successful_scrape0 [OF assms] by (auto simp: Describe0_def)

lemma distinct_Describe: "distinct (Describe e [])" "distinct (Describe0 e [])"
  using distinct_table by (simp_all add: Describe_def Describe0_def)

text \<open>
  C10. \<^verbatim>\<open>Describe\<close> appends to its channel the descriptors of the table, each once, and
  these are the descriptors of the samples of a scrape in which no query fails, in the same
  order; in both variants.
\<close>

theorem describe_matches_collect:
  "Describe e dch = dch @ [up, blocks, peers, difficulty, bytesSent, bytesReceived, latestBlock]
   \<and> distinct (Describe e [])
   \<and> (Collect_metrics e s = (p, s') \<and> (\<forall>ev\<in>set (issued s s'). \<not> is_error (snd ev)) \<longrightarrow>
        map metric_desc (emitted s s') = Describe e []
        \<and> set (Describe e []) = set (map metric_desc (emitted s s')))
   \<and> Describe0 e0 dch0 = dch0 @ [up, blocks, peers, difficulty, bytesSent, bytesReceived]
   \<and> distinct (Describe0 e0 [])
   \<and> (Collect_metrics0 e0 s0 = (p0, s0') \<and> (\<forall>ev\<in>set (issued s0 s0'). \<not> is_error (snd ev)) \<longrightarrow>
        map metric_desc (emitted s0 s0') = Describe0 e0 []
        \<and> set (Describe0 e0 []) = set (map metric_desc (emitted s0 s0')))"
proof -
  have a: "Collect_metrics e s = (p, s') \<and> (\<forall>ev\<in>set (issued s s'). \<not> is_error (snd ev)) \<longrightarrow>
        map metric_desc (emitted s s') = Describe e []
        \<and> set (Describe e []) = set (map metric_desc (emitted s s'))"
    using descs_of_success [of e s p s'] by simp
  have b: "Collect_metrics0 e0 s0 = (p0, s0') \<and> (\<forall>ev\<in>set (issued s0 s0'). \<not> is_error (snd ev)) \<longrightarrow>
        map metric_desc (emitted s0 s0') = Describe0 e0 []
        \<and> set (Describe0 e0 []) = set (map metric_desc (emitted s0 s0'))"
    using descs_of_success0 [of e0 s0 p0 s0'] by simp
  have d: "Describe e dch = dch @ [up, blocks, peers, difficulty, bytesSent, bytesReceived, latestBlock]"
    "Describe0 e0 dch0 = dch0 @ [up, blocks, peers, difficulty, bytesSent, bytesReceived]"
    by (simp_all add: Describe_def Describe0_def)
  show ?thesis by (intro conjI a b d distinct_Describe)
qed

theorem describe_matches_collect_witness:
  "map fqName (Describe (NewExporter (scenario_client 4)) []) =
     [''btcd_up'', ''btcd_blocks_total'', ''btcd_peers'', ''btcd_difficulty'',
      ''btcd_sent_bytes'', ''btcd_received_bytes'', ''btcd_latest_block_timestamp'']
   \<and> map metric_desc
        (emitted (start 0) (snd (Collect_metrics (NewExporter (scenario_client 4)) (start 0))))
      = Describe (NewExporter (scenario_client 4)) []
   \<and> map fqName (Describe0 (NewExporter (scenario_client 4)) []) =
     [''btcd_up'', ''btcd_blocks_total'', ''btcd_peers'', ''btcd_difficulty'',
      ''btcd_sent_bytes'', ''btcd_received_bytes'']
   \<and> map metric_desc
        (emitted (start 0) (snd (Collect_metrics0 (NewExporter (scenario_client 4)) (start 0))))
      = Describe0 (NewExporter (scenario_client 4)) []"
proof -
  let ?a = "Collect_metrics (NewExporter (scenario_client 4)) (start 0)"
  let ?c = "Collect_metrics0 (NewExporter (scenario_client 4)) (start 0)"
  have p: "?a = (fst ?a, snd ?a)" "?c = (fst ?c, snd ?c)" by simp_all
  note inst = describe_matches_collect
         [of "NewExporter (scenario_client 4)" "[]" "start 0" "fst ?a" "snd ?a"
             "NewExporter (scenario_client 4)" "[]" "start 0" "fst ?c" "snd ?c"]
  note ext = inst [THEN conjunct2, THEN conjunct2, THEN conjunct1, THEN mp, THEN conjunct1]
  note bas = inst [THEN conjunct2, THEN conjunct2, THEN conjunct2, THEN conjunct2,
                   THEN conjunct2, THEN mp, THEN conjunct1]
  have a: "map metric_desc (emitted (start 0) (snd ?a))
             = Describe (NewExporter (scenario_client 4)) []"
    by (rule ext) (intro conjI p(1) scenario_all_answered(1))
  have c: "map metric_desc (emitted (start 0) (snd ?c))
             = Describe0 (NewExporter (scenario_client 4)) []"
    by (rule bas) (intro conjI p(2) scenario_all_answered(2))
  have "Describe (NewExporter (scenario_client 4)) [] =
      [] @ [up, blocks, peers, difficulty, bytesSent, bytesReceived, latestBlock]"
    "Describe0 (NewExporter (scenario_client 4)) [] =
      [] @ [up, blocks, peers, difficulty, bytesSent, bytesReceived]"
    by (rule inst [THEN conjunct1],
        rule inst [THEN conjunct2, THEN conjunct2, THEN conjunct2, THEN conjunct1])
  then have n: "map fqName (Describe (NewExporter (scenario_client 4)) []) =
     [''btcd_up'', ''btcd_blocks_total'', ''btcd_peers'', ''btcd_difficulty'',
      ''btcd_sent_bytes'', ''btcd_received_bytes'', ''btcd_latest_block_timestamp'']"
    "map fqName (Describe0 (NewExporter (scenario_client 4)) []) =
     [''btcd_up'', ''btcd_blocks_total'', ''btcd_peers'', ''btcd_difficulty'',
      ''btcd_sent_bytes'', ''btcd_received_bytes'']"
    by (simp_all add: fqName_table)
  show ?thesis by (intro conjI n a c)
qed

subsection \<open>Startup: the required variables\<close>

lemma main_missing:
  assumes "Getenv os ''BTCD_EXPORTER_HOST'' = [] \<or> Getenv os ''BTCD_EXPORTER_USERNAME'' = []
           \<or> Getenv os ''BTCD_EXPORTER_PASSWORD'' = []"
  shows "main os =
      ([Log_Fatal
         ''BTCD_EXPORTER_HOST, BTCD_EXPORTER_USERNAME, BTCD_EXPORTER_PASSWORD must be set''],
       Exit 1)"
    and "main0 os =
      ([Log_Fatal
         ''BTCD_EXPORTER_HOST, BTCD_EXPORTER_USERNAME, BTCD_EXPORTER_PASSWORD must be set''],
       Exit 1)"
  using assms by (auto simp: main_def main0_def Let_def)

text \<open>
  C7. When the host, the user name or the password is empty or not set, \<^verbatim>\<open>main\<close> of either
  variant does one thing: it logs the fatal message naming the three variables and exits with
  status 1. It reads no file, creates no client and listens on no port.
\<close>

theorem missing_required_variable_is_fatal:
  "Getenv os ''BTCD_EXPORTER_HOST'' = [] \<or> Getenv os ''BTCD_EXPORTER_USERNAME'' = []
     \<or> Getenv os ''BTCD_EXPORTER_PASSWORD'' = [] \<longrightarrow>
   main os =
      ([Log_Fatal
         ''BTCD_EXPORTER_HOST, BTCD_EXPORTER_USERNAME, BTCD_EXPORTER_PASSWORD must be set''],
       Exit 1)
   \<and> main0 os =
      ([Log_Fatal
         ''BTCD_EXPORTER_HOST, BTCD_EXPORTER_USERNAME, BTCD_EXPORTER_PASSWORD must be set''],
       Exit 1)
   \<and> (\<forall>cfg. Client_New cfg \<notin> set (fst (main os)) \<and> Client_New cfg \<notin> set (fst (main0 os)))
   \<and> (\<forall>a. Listen a \<notin> set (fst (main os)) \<and> Listen a \<notin> set (fst (main0 os)))
   \<and> (\<forall>f. Read_File f \<notin> set (fst (main os)))"
proof (rule impI)
  assume "Getenv os ''BTCD_EXPORTER_HOST'' = [] \<or> Getenv os ''BTCD_EXPORTER_USERNAME'' = []
     \<or> Getenv os ''BTCD_EXPORTER_PASSWORD'' = []"
  note m = main_missing [OF this]
  show "main os =
      ([Log_Fatal
         ''BTCD_EXPORTER_HOST, BTCD_EXPORTER_USERNAME, BTCD_EXPORTER_PASSWORD must be set''],
       Exit 1)
   \<and> main0 os =
      ([Log_Fatal
         ''BTCD_EXPORTER_HOST, BTCD_EXPORTER_USERNAME, BTCD_EXPORTER_PASSWORD must be set''],
       Exit 1)
   \<and> (\<forall>cfg. Client_New cfg \<notin> set (fst (main os)) \<and> Client_New cfg \<notin> set (fst (main0 os)))
   \<and> (\<forall>a. Listen a \<notin> set (fst (main os)) \<and> Listen a \<notin> set (fst (main0 os)))
   \<and> (\<forall>f. Read_File f \<notin> set (fst (main os)))"
    unfolding m by simp
qed

lemma Getenv_scenario:
  "Getenv (scenario_os env files) k = (case map_of env k of None \<Rightarrow> [] | Some v \<Rightarrow> v)"
  by (simp add: Getenv_def scenario_os_def)

text \<open>Scenario D: the host variable is not set.\<close>

theorem missing_required_variable_is_fatal_witness:
  "Getenv (scenario_os (tl required_env) []) ''BTCD_EXPORTER_HOST'' = []
   \<and> main (scenario_os (tl required_env) []) =
      ([Log_Fatal
         ''BTCD_EXPORTER_HOST, BTCD_EXPORTER_USERNAME, BTCD_EXPORTER_PASSWORD must be set''],
       Exit 1)
   \<and> main0 (scenario_os (tl required_env) []) =
      ([Log_Fatal
         ''BTCD_EXPORTER_HOST, BTCD_EXPORTER_USERNAME, BTCD_EXPORTER_PASSWORD must be set''],
       Exit 1)"
proof -
  have h: "Getenv (scenario_os (tl required_env) []) ''BTCD_EXPORTER_HOST'' = []"
    by (simp add: Getenv_scenario required_env_def)
  note inst = missing_required_variable_is_fatal [of "scenario_os (tl required_env) []", THEN mp,
      OF disjI1, OF h]
  show ?thesis by (intro conjI h inst [THEN conjunct1] inst [THEN conjunct2, THEN conjunct1])
qed

subsection \<open>Startup: the certificate\<close>











end
